theory Spec2Isabelle
  imports Complex_Main "HOL-Library.List_Lexorder" "HOL-Library.Char_ord"
begin

section \<open>Topology construction pipeline of SeQUeNCe\<close>

text \<open>
  A shallow embedding of \<^verbatim>\<open>sequence/topology/topology.py\<close> and
  \<^verbatim>\<open>sequence/topology/network_impls.py\<close>. JSON numbers are exact reals
  (floating-point rounding is not modelled); Python dictionaries whose iteration order
  matters are association lists; in-place mutation of the config and of the topology is
  explicit state passing, and a raised exception is the left injection of a sum, carrying
  the state reached when it was raised.
\<close>

subsection \<open>Constants of const_topo.py\<close>

type_synonym num = real

definition BSM_NODE :: string where "BSM_NODE = ''BSMNode''"
definition QUANTUM_ROUTER :: string where "QUANTUM_ROUTER = ''QuantumRouter''"
definition DQC_NODE :: string where "DQC_NODE = ''DQCNode''"
definition QKD_NODE :: string where "QKD_NODE = ''QKDNode''"
definition ORCHESTRATOR :: string where "ORCHESTRATOR = ''QlanOrchestratorNode''"
definition CLIENT :: string where "CLIENT = ''QlanClientNode''"
definition MEET_IN_THE_MID :: string where "MEET_IN_THE_MID = ''meet_in_the_middle''"

lemmas type_consts =
  BSM_NODE_def QUANTUM_ROUTER_def DQC_NODE_def QKD_NODE_def ORCHESTRATOR_def CLIENT_def

text \<open>The enumeration \<^verbatim>\<open>NodeType\<close>; \<^verbatim>\<open>NodeType(s)\<close> raises ValueError on a string
  that is no member's value.\<close>

datatype NodeType = QuantumRouterT | DQCNodeT | BSMNodeT | QKDNodeT | OrchestratorT | ClientT

definition NodeType_of :: "string \<Rightarrow> NodeType option" where
  "NodeType_of s =
     (if s = QUANTUM_ROUTER then Some QuantumRouterT
      else if s = DQC_NODE then Some DQCNodeT
      else if s = BSM_NODE then Some BSMNodeT
      else if s = QKD_NODE then Some QKDNodeT
      else if s = ORCHESTRATOR then Some OrchestratorT
      else if s = CLIENT then Some ClientT
      else None)"

definition MIDPOINT_NODE_TYPES :: "NodeType set" where
  "MIDPOINT_NODE_TYPES = {BSMNodeT}"

subsection \<open>Config declarations\<close>

text \<open>A template maps a component kind to its parameters.\<close>

type_synonym template = "string \<rightharpoonup> (string \<rightharpoonup> num)"

record node_decl =
  nd_name :: string
  nd_type :: string
  nd_seed :: int
  nd_template :: "string option"
  nd_memo_size :: "int option"
  nd_data_memo_size :: "int option"

record qconnect_decl =
  qn_node1 :: string
  qn_node2 :: string
  qn_attenuation :: num
  qn_distance :: num
  qn_type :: string
  qn_seed :: "int option"
  qn_template :: "string option"

record cconnect_decl =
  cn_node1 :: string
  cn_node2 :: string
  cn_distance :: "num option"
  cn_delay :: "num option"

record qchannel_decl =
  qd_name :: "string option"
  qd_source :: string
  qd_destination :: string
  qd_distance :: num
  qd_attenuation :: num

record cchannel_decl =
  cd_name :: "string option"
  cd_source :: string
  cd_destination :: string
  cd_distance :: "num option"
  cd_delay :: "num option"

text \<open>The config. The sections \<^verbatim>\<open>qchannels\<close> and \<^verbatim>\<open>cchannels\<close> may be absent
  (\<^verbatim>\<open>setdefault\<close> creates them); absent connection sections read as empty lists; the
  flat QLAN keys are optional top-level scalars.\<close>

record config =
  cf_nodes :: "node_decl list"
  cf_qconnections :: "qconnect_decl list"
  cf_cconnections :: "cconnect_decl list"
  cf_qchannels :: "qchannel_decl list option"
  cf_cchannels :: "cchannel_decl list option"
  cf_templates :: "string \<rightharpoonup> template"
  cf_flat :: "string \<rightharpoonup> num"
  cf_measurement_bases :: "string option"

subsection \<open>QlanNetworkImpl._ordered_node_dicts\<close>

definition ordered_node_dicts :: "node_decl list \<Rightarrow> node_decl list" where
  "ordered_node_dicts node_list =
     (let clients = filter (\<lambda>n. nd_type n = CLIENT) node_list;
          orchestrators = filter (\<lambda>n. nd_type n = ORCHESTRATOR) node_list;
          others = filter (\<lambda>n. nd_type n \<noteq> CLIENT \<and> nd_type n \<noteq> ORCHESTRATOR) node_list
      in others @ clients @ orchestrators)"

text \<open>The order the specification words describe: clients, then others, then
  orchestrators.\<close>

definition spec_ordered_node_dicts :: "node_decl list \<Rightarrow> node_decl list" where
  "spec_ordered_node_dicts node_list =
     filter (\<lambda>n. nd_type n = CLIENT) node_list
     @ filter (\<lambda>n. nd_type n \<noteq> CLIENT \<and> nd_type n \<noteq> ORCHESTRATOR) node_list
     @ filter (\<lambda>n. nd_type n = ORCHESTRATOR) node_list"

definition mk_node :: "string \<Rightarrow> string \<Rightarrow> int \<Rightarrow> node_decl" where
  "mk_node n t s = \<lparr>nd_name = n, nd_type = t, nd_seed = s, nd_template = None,
                    nd_memo_size = None, nd_data_memo_size = None\<rparr>"

subsection \<open>Errors and outcomes\<close>

text \<open>Every exception the pipeline raises. The Python class is given with each.\<close>

datatype error =
    MissingClassicalLink qconnect_decl  \<comment> \<open>AssertionError: \<^verbatim>\<open>assert 0, q_connect\<close>\<close>
  | UnknownConnectionType string        \<comment> \<open>NotImplementedError of \<^verbatim>\<open>_handle_qconnection\<close>\<close>
  | InvalidNodeType string              \<comment> \<open>ValueError of \<^verbatim>\<open>NodeType(node_type)\<close>\<close>
  | UnregisteredNodeType string         \<comment> \<open>NotImplementedError: no entry in NODE_TYPES\<close>
  | UnknownQlanNodeType string          \<comment> \<open>ValueError of the QLAN factory\<close>
  | NoOpCreateNode                      \<comment> \<open>NotImplementedError of NoOpNetworkImpl\<close>
  | KeyError string                     \<comment> \<open>missing dictionary key\<close>
  | UnpackError string                  \<comment> \<open>ValueError: wrong number of values to unpack\<close>
  | IndexError                          \<comment> \<open>list index out of range\<close>
  | AttributeError string               \<comment> \<open>attribute read before it was set\<close>
  | NodeNotFound string                 \<comment> \<open>networkx: the source is not in the graph\<close>

text \<open>The implementor object the topology is composed with.\<close>

datatype impl = BsmNetworkImpl | QlanNetworkImpl | NoOpNetworkImpl

subsection \<open>Topology._add_qconnections and BsmNetworkImpl._handle_qconnection\<close>

text \<open>\<^verbatim>\<open>cc.get(DELAY, cc.get(DISTANCE, 1000) / SPEED_OF_LIGHT)\<close>; the constant
  \<^verbatim>\<open>SPEED_OF_LIGHT\<close> of \<^verbatim>\<open>sequence/constants.py\<close> is the parameter \<open>c\<close>.\<close>

definition delay_of :: "num \<Rightarrow> num option \<Rightarrow> num option \<Rightarrow> num" where
  "delay_of c delay distance =
     (case delay of Some d \<Rightarrow> d
      | None \<Rightarrow> (case distance of Some x \<Rightarrow> x | None \<Rightarrow> 1000) / c)"

definition get_list :: "'a list option \<Rightarrow> 'a list" where
  "get_list sec = (case sec of None \<Rightarrow> [] | Some xs \<Rightarrow> xs)"

text \<open>The list \<^verbatim>\<open>cc_delay\<close> collected by the two inner loops: the classical channels
  first, then the classical connections.\<close>

definition cc_delay_list :: "num \<Rightarrow> config \<Rightarrow> qconnect_decl \<Rightarrow> num list" where
  "cc_delay_list c cfg q =
     map (\<lambda>cc. delay_of c (cd_delay cc) (cd_distance cc))
       (filter (\<lambda>cc. {cd_source cc, cd_destination cc} = {qn_node1 q, qn_node2 q})
          (get_list (cf_cchannels cfg)))
     @ map (\<lambda>cc. delay_of c (cn_delay cc) (cn_distance cc))
       (filter (\<lambda>cc. {cn_node1 cc, cn_node2 cc} = {qn_node1 q, qn_node2 q})
          (cf_cconnections cfg))"

text \<open>\<^verbatim>\<open>int(np.mean(cc_delay) // 2)\<close>\<close>

definition mean :: "num list \<Rightarrow> num" where
  "mean xs = sum_list xs / of_nat (length xs)"

definition halved_mean :: "num list \<Rightarrow> int" where
  "halved_mean xs = \<lfloor>mean xs / 2\<rfloor>"

definition bsm_name_of :: "string \<Rightarrow> string \<Rightarrow> string" where
  "bsm_name_of node1 node2 = ''BSM.'' @ node1 @ ''.'' @ node2 @ ''.auto''"

definition auto_bsm_decl :: "qconnect_decl \<Rightarrow> node_decl" where
  "auto_bsm_decl q =
     \<lparr>nd_name = bsm_name_of (qn_node1 q) (qn_node2 q), nd_type = BSM_NODE,
      nd_seed = (case qn_seed q of None \<Rightarrow> 0 | Some s \<Rightarrow> s),
      nd_template = qn_template q, nd_memo_size = None, nd_data_memo_size = None\<rparr>"

definition auto_qchannel :: "string \<Rightarrow> string \<Rightarrow> num \<Rightarrow> num \<Rightarrow> qchannel_decl" where
  "auto_qchannel src bsm distance attenuation =
     \<lparr>qd_name = Some (''QC.'' @ src @ ''.'' @ bsm), qd_source = src, qd_destination = bsm,
      qd_distance = distance, qd_attenuation = attenuation\<rparr>"

definition auto_cchannel :: "string \<Rightarrow> string \<Rightarrow> num \<Rightarrow> int \<Rightarrow> cchannel_decl" where
  "auto_cchannel src dst distance cc_delay =
     \<lparr>cd_name = Some (''CC.'' @ src @ ''.'' @ dst), cd_source = src, cd_destination = dst,
      cd_distance = Some distance, cd_delay = Some (of_int cc_delay)\<rparr>"

text \<open>One round of the loop \<^verbatim>\<open>for src in [node1, node2]\<close>.\<close>

definition append_channels :: "string \<Rightarrow> string \<Rightarrow> num \<Rightarrow> num \<Rightarrow> int \<Rightarrow> config \<Rightarrow> config" where
  "append_channels src bsm distance attenuation cc_delay cfg =
     cfg\<lparr>cf_qchannels :=
           Some (get_list (cf_qchannels cfg) @ [auto_qchannel src bsm distance attenuation]),
         cf_cchannels :=
           Some (get_list (cf_cchannels cfg)
                 @ [auto_cchannel src bsm distance cc_delay,
                    auto_cchannel bsm src distance cc_delay])\<rparr>"

definition bsm_handle_qconnection ::
  "qconnect_decl \<Rightarrow> int \<Rightarrow> config \<Rightarrow> (error \<times> config) + config" where
  "bsm_handle_qconnection q cc_delay cfg =
     (let node1 = qn_node1 q; node2 = qn_node2 q;
          attenuation = qn_attenuation q;
          distance = of_int \<lfloor>qn_distance q / 2\<rfloor>;
          channel_type = qn_type q
      in if channel_type = MEET_IN_THE_MID then
           let bsm_name = bsm_name_of node1 node2;
               cfg1 = cfg\<lparr>cf_nodes := cf_nodes cfg @ [auto_bsm_decl q]\<rparr>
           in Inr (fold (\<lambda>src. append_channels src bsm_name distance attenuation cc_delay)
                     [node1, node2] cfg1)
         else Inl (UnknownConnectionType channel_type, cfg))"

text \<open>The base class \<^verbatim>\<open>NetworkImpl\<close> leaves \<^verbatim>\<open>_handle_qconnection\<close> a no-op.\<close>

definition handle_qconnection ::
  "impl \<Rightarrow> qconnect_decl \<Rightarrow> int \<Rightarrow> config \<Rightarrow> (error \<times> config) + config" where
  "handle_qconnection i q cc_delay cfg =
     (case i of BsmNetworkImpl \<Rightarrow> bsm_handle_qconnection q cc_delay cfg | _ \<Rightarrow> Inr cfg)"

fun add_qconnections_loop ::
  "impl \<Rightarrow> num \<Rightarrow> qconnect_decl list \<Rightarrow> config \<Rightarrow> (error \<times> config) + config" where
  "add_qconnections_loop i c [] cfg = Inr cfg"
| "add_qconnections_loop i c (q # qs) cfg =
     (let cc_delay = cc_delay_list c cfg q
      in if length cc_delay = 0 then Inl (MissingClassicalLink q, cfg)
         else (case handle_qconnection i q (halved_mean cc_delay) cfg of
                 Inl e \<Rightarrow> Inl e
               | Inr cfg' \<Rightarrow> add_qconnections_loop i c qs cfg'))"

definition add_qconnections :: "impl \<Rightarrow> num \<Rightarrow> config \<Rightarrow> (error \<times> config) + config" where
  "add_qconnections i c cfg = add_qconnections_loop i c (cf_qconnections cfg) cfg"




subsection \<open>Example configs\<close>

definition cfgA :: config where
  "cfgA = \<lparr>cf_nodes = [mk_node ''r1'' QUANTUM_ROUTER 0, mk_node ''r2'' QUANTUM_ROUTER 1],
     cf_qconnections = [],
     cf_cconnections = [\<lparr>cn_node1 = ''r2'', cn_node2 = ''r1'', cn_distance = None,
                         cn_delay = Some 1000000000\<rparr>],
     cf_qchannels = None, cf_cchannels = None, cf_templates = Map.empty, cf_flat = Map.empty,
     cf_measurement_bases = None\<rparr>"

definition qA :: qconnect_decl where
  "qA = \<lparr>qn_node1 = ''r1'', qn_node2 = ''r2'', qn_attenuation = 2 / 10000, qn_distance = 2001,
         qn_type = MEET_IN_THE_MID, qn_seed = None, qn_template = None\<rparr>"


subsection \<open>Node objects, channel objects and the topology state\<close>

text \<open>
  Modelled from the spec: the node classes, the channel classes and the timeline are not
  part of the sources at hand. A node object is "bound to the simulation timeline" and
  its name "is unique within the timeline's entity namespace", so the timeline is a store
  from names to node objects and every other structure refers to a node object by its
  name; the model is exact for configs whose node names are distinct. Of a node class
  only the routing protocol its network manager reports is visible here; of a channel
  object its name, its numeric parameters and its two ends.
\<close>

datatype routing_kind = StaticRouting | DistributedRouting | OtherRouting

type_synonym node_class = "template \<Rightarrow> routing_kind"

record mem_params =
  mp_fidelity :: num
  mp_frequency :: num
  mp_efficiency :: num
  mp_coherence_time :: num
  mp_wavelength :: num

datatype node_kind =
    BSMNodeK "string list"
  | EndpointK "(string \<times> int) list"
  | QlanClientK mem_params
  | QlanOrchestratorK num "string list" mem_params string

datatype cost_val = Str string | Num num

record node_obj =
  no_name :: string
  no_kind :: node_kind
  no_template :: template
  no_seed :: "int option"
  no_routing :: routing_kind
  no_bsm_nodes :: "(string \<times> string) list"
  no_forwarding_table :: "string \<rightharpoonup> string"
  no_link_cost :: "cost_val \<rightharpoonup> cost_val"

record qchannel_obj =
  qo_name :: string
  qo_attenuation :: num
  qo_distance :: num
  qo_sender :: string
  qo_receiver :: string

record cchannel_obj =
  co_name :: string
  co_distance :: num
  co_delay :: num
  co_sender :: string
  co_receiver :: string

record qlan_attrs =
  n_local_memories :: num
  n_clients :: num
  meas_bases :: string
  memo_orch :: mem_params
  memo_client :: mem_params

type_synonym timeline = "string \<rightharpoonup> node_obj"

record topology =
  tp_config :: config
  tp_templates :: "string \<rightharpoonup> template"
  tp_bsm_to_router_map :: "(string \<times> string list) list"
  tp_nodes :: "(string \<times> string list) list"
  tp_tl :: timeline
  tp_qchannels :: "qchannel_obj list"
  tp_cchannels :: "cchannel_obj list"
  tp_qlan :: "qlan_attrs option"
  tp_node_kwargs :: "string \<rightharpoonup> (string \<times> int) list"
  tp_impl_n_local_memories :: num
  tp_impl_meas_bases :: string
  tp_remote_memories :: "string list"
  tp_orchestrator_nodes :: "string list"
  tp_client_nodes :: "string list"

type_synonym 's outcome = "(error \<times> 's) + 's"

text \<open>A Python dict that keeps insertion order: assigning to a present key keeps its
  place, assigning to a new key appends it.\<close>

fun dict_set :: "'k \<Rightarrow> 'v \<Rightarrow> ('k \<times> 'v) list \<Rightarrow> ('k \<times> 'v) list" where
  "dict_set k v [] = [(k, v)]"
| "dict_set k v ((k', v') # ps) = (if k = k' then (k, v) # ps else (k', v') # dict_set k v ps)"

text \<open>\<^verbatim>\<open>d[k].append(x)\<close> on a \<^verbatim>\<open>defaultdict(list)\<close>.\<close>

definition dict_append :: "'k \<Rightarrow> 'v \<Rightarrow> ('k \<times> 'v list) list \<Rightarrow> ('k \<times> 'v list) list" where
  "dict_append k x d = dict_set k ((case map_of d k of None \<Rightarrow> [] | Some xs \<Rightarrow> xs) @ [x]) d"

fun fold_err :: "('a \<Rightarrow> 's \<Rightarrow> 's outcome) \<Rightarrow> 'a list \<Rightarrow> 's \<Rightarrow> 's outcome" where
  "fold_err f [] s = Inr s"
| "fold_err f (x # xs) s = (case f x s of Inl e \<Rightarrow> Inl e | Inr s' \<Rightarrow> fold_err f xs s')"

text \<open>\<^verbatim>\<open>Topology._setup\<close>, with the config the pipeline is about to run on.\<close>

definition topology_setup :: "config \<Rightarrow> topology" where
  "topology_setup cfg = \<lparr>tp_config = cfg, tp_templates = Map.empty, tp_bsm_to_router_map = [],
     tp_nodes = [], tp_tl = Map.empty, tp_qchannels = [], tp_cchannels = [],
     tp_qlan = None, tp_node_kwargs = Map.empty, tp_impl_n_local_memories = 0,
     tp_impl_meas_bases = [], tp_remote_memories = [], tp_orchestrator_nodes = [],
     tp_client_nodes = []\<rparr>"

subsection \<open>Topology._add_parameters and the QLAN parameters\<close>

definition get_default :: "('k \<rightharpoonup> 'v) \<Rightarrow> 'k \<Rightarrow> 'v \<Rightarrow> 'v" where
  "get_default m k d = (case m k of None \<Rightarrow> d | Some v \<Rightarrow> v)"

definition qlan_memarray :: "config \<Rightarrow> (string \<rightharpoonup> template) \<Rightarrow> string \<Rightarrow> (string \<rightharpoonup> num)" where
  "qlan_memarray cfg templates node_type =
     (case filter (\<lambda>n. nd_type n = node_type
                       \<and> (case nd_template n of None \<Rightarrow> False
                           | Some t \<Rightarrow> t \<noteq> [] \<and> t \<in> dom templates)) (cf_nodes cfg) of
        [] \<Rightarrow> Map.empty
      | n # _ \<Rightarrow> get_default (the (templates (the (nd_template n)))) ''MemoryArray'' Map.empty)"

definition mem_from :: "(string \<rightharpoonup> num) \<Rightarrow> string \<Rightarrow> string \<Rightarrow> string \<Rightarrow> string \<Rightarrow> string
    \<Rightarrow> mem_params" where
  "mem_from m kfid kfreq keff kcoh kwl =
     \<lparr>mp_fidelity = get_default m kfid (9 / 10), mp_frequency = get_default m kfreq 2000,
      mp_efficiency = get_default m keff 1, mp_coherence_time = get_default m kcoh (- 1),
      mp_wavelength = get_default m kwl 500\<rparr>"

definition add_qlan_parameters :: "config \<Rightarrow> topology \<Rightarrow> topology" where
  "add_qlan_parameters cfg topo =
     topo\<lparr>tp_qlan := Some
       \<lparr>n_local_memories = get_default (cf_flat cfg) ''local_memories'' 1,
        n_clients = get_default (cf_flat cfg) ''client_number'' 1,
        meas_bases = (case cf_measurement_bases cfg of None \<Rightarrow> ''z'' | Some b \<Rightarrow> b),
        memo_orch =
          (if ''memo_fidelity_orch'' \<in> dom (cf_flat cfg)
           then mem_from (cf_flat cfg) ''memo_fidelity_orch'' ''memo_frequency_orch''
                  ''memo_efficiency_orch'' ''memo_coherence_orch'' ''memo_wavelength_orch''
           else mem_from (qlan_memarray cfg (tp_templates topo) ORCHESTRATOR)
                  ''fidelity'' ''frequency'' ''efficiency'' ''coherence_time'' ''wavelength''),
        memo_client =
          (if ''memo_fidelity_orch'' \<in> dom (cf_flat cfg)
           then mem_from (cf_flat cfg) ''memo_fidelity_client'' ''memo_frequency_client''
                  ''memo_efficiency_client'' ''memo_coherence_client'' ''memo_wavelength_client''
           else mem_from (qlan_memarray cfg (tp_templates topo) CLIENT)
                  ''fidelity'' ''frequency'' ''efficiency'' ''coherence_time'' ''wavelength'')\<rparr>\<rparr>"

text \<open>\<^verbatim>\<open>{k: node[k] for k in _NODE_CONSTRUCTOR_PARAMS if k in node}\<close>\<close>

definition node_constructor_params :: "node_decl \<Rightarrow> (string \<times> int) list" where
  "node_constructor_params n =
     (case nd_memo_size n of None \<Rightarrow> [] | Some v \<Rightarrow> [(''memo_size'', v)])
     @ (case nd_data_memo_size n of None \<Rightarrow> [] | Some v \<Rightarrow> [(''data_memo_size'', v)])"

definition impl_add_parameters :: "impl \<Rightarrow> config \<Rightarrow> topology \<Rightarrow> topology outcome" where
  "impl_add_parameters i cfg topo =
     (case i of
        BsmNetworkImpl \<Rightarrow>
          Inr (topo\<lparr>tp_node_kwargs :=
                 fold (\<lambda>n m. m(nd_name n \<mapsto> node_constructor_params n)) (cf_nodes cfg)
                   Map.empty\<rparr>)
      | QlanNetworkImpl \<Rightarrow>
          (case tp_qlan topo of
             None \<Rightarrow> Inl (AttributeError ''n_local_memories'', topo)
           | Some a \<Rightarrow>
               Inr (topo\<lparr>tp_impl_n_local_memories := n_local_memories a,
                         tp_impl_meas_bases := meas_bases a,
                         tp_remote_memories := [], tp_orchestrator_nodes := [],
                         tp_client_nodes := []\<rparr>))
      | NoOpNetworkImpl \<Rightarrow> Inr topo)"

definition add_parameters :: "impl \<Rightarrow> topology \<Rightarrow> topology outcome" where
  "add_parameters i topo =
     (let cfg = tp_config topo;
          node_types_present = nd_type ` set (cf_nodes cfg);
          topo1 = (if ORCHESTRATOR \<in> node_types_present \<or> CLIENT \<in> node_types_present
                   then add_qlan_parameters cfg topo else topo)
      in impl_add_parameters i cfg topo1)"

subsection \<open>BsmNetworkImpl._map_bsm_routers and _add_bsm_node_to_router\<close>

definition map_bsm_routers_step ::
  "qchannel_decl \<Rightarrow> (string \<times> string list) list \<Rightarrow> (string \<times> string list) list" where
  "map_bsm_routers_step qc m =
     (let src = qd_source qc; dst = qd_destination qc
      in case map_of m dst of
           Some srcs \<Rightarrow> dict_set dst (srcs @ [src]) m
         | None \<Rightarrow> dict_set dst [src] m)"

definition bsm_map_bsm_routers :: "topology \<Rightarrow> topology outcome" where
  "bsm_map_bsm_routers topo =
     (case cf_qchannels (tp_config topo) of
        None \<Rightarrow> Inl (KeyError ''qchannels'', topo)
      | Some qcs \<Rightarrow>
          Inr (topo\<lparr>tp_bsm_to_router_map :=
                 fold map_bsm_routers_step qcs (tp_bsm_to_router_map topo)\<rparr>))"

definition map_bsm_routers :: "impl \<Rightarrow> topology \<Rightarrow> topology outcome" where
  "map_bsm_routers i topo =
     (case i of BsmNetworkImpl \<Rightarrow> bsm_map_bsm_routers topo | _ \<Rightarrow> Inr topo)"

definition add_bsm_node :: "string \<Rightarrow> string \<Rightarrow> string \<Rightarrow> timeline \<Rightarrow> timeline" where
  "add_bsm_node r bsm other tline =
     (case tline r of None \<Rightarrow> tline
      | Some obj \<Rightarrow> tline(r \<mapsto> obj\<lparr>no_bsm_nodes := no_bsm_nodes obj @ [(bsm, other)]\<rparr>))"

definition add_bsm_node_to_router_step ::
  "string \<times> string list \<Rightarrow> topology \<Rightarrow> topology outcome" where
  "add_bsm_node_to_router_step e topo =
     (case snd e of
        [r0_str, r1_str] \<Rightarrow>
          Inr (topo\<lparr>tp_tl := add_bsm_node r1_str (fst e) r0_str
                                (add_bsm_node r0_str (fst e) r1_str (tp_tl topo))\<rparr>)
      | _ \<Rightarrow> Inl (UnpackError (fst e), topo))"

definition add_bsm_node_to_router :: "impl \<Rightarrow> topology \<Rightarrow> topology outcome" where
  "add_bsm_node_to_router i topo =
     (case i of
        BsmNetworkImpl \<Rightarrow> fold_err add_bsm_node_to_router_step (tp_bsm_to_router_map topo) topo
      | _ \<Rightarrow> Inr topo)"

subsection \<open>The node factories and Topology._add_nodes\<close>

definition new_node :: "string \<Rightarrow> node_kind \<Rightarrow> template \<Rightarrow> routing_kind \<Rightarrow> node_obj" where
  "new_node name kind tmpl r =
     \<lparr>no_name = name, no_kind = kind, no_template = tmpl, no_seed = None, no_routing = r,
      no_bsm_nodes = [], no_forwarding_table = Map.empty, no_link_cost = Map.empty\<rparr>"

text \<open>\<^verbatim>\<open>node_obj.set_seed(node_config[SEED]); nodes[node_type].append(node_obj)\<close>, the
  constructor having entered the object in the timeline.\<close>

definition register_node :: "node_decl \<Rightarrow> node_obj \<Rightarrow> topology \<Rightarrow> topology" where
  "register_node nd obj topo =
     topo\<lparr>tp_tl := (tp_tl topo)(no_name obj \<mapsto> obj\<lparr>no_seed := Some (nd_seed nd)\<rparr>),
          tp_nodes := dict_append (nd_type nd) (no_name obj) (tp_nodes topo)\<rparr>"

definition bsm_create_node ::
  "(string \<rightharpoonup> node_class) \<Rightarrow> node_decl \<Rightarrow> template \<Rightarrow> topology \<Rightarrow> topology outcome" where
  "bsm_create_node node_types nd tmpl topo =
     (case NodeType_of (nd_type nd) of
        None \<Rightarrow> Inl (InvalidNodeType (nd_type nd), topo)
      | Some BSMNodeT \<Rightarrow>
          (case map_of (tp_bsm_to_router_map topo) (nd_name nd) of
             None \<Rightarrow> Inl (KeyError (nd_name nd), topo)
           | Some others \<Rightarrow>
               Inr (register_node nd
                      (new_node (nd_name nd) (BSMNodeK others) tmpl OtherRouting) topo))
      | Some _ \<Rightarrow>
          (case node_types (nd_type nd) of
             None \<Rightarrow> Inl (UnregisteredNodeType (nd_type nd), topo)
           | Some cls \<Rightarrow>
               let kwargs = get_default (tp_node_kwargs topo) (nd_name nd) []
               in Inr (register_node nd
                         (new_node (nd_name nd) (EndpointK kwargs) tmpl (cls tmpl)) topo)))"

definition memo_of_template :: "template \<Rightarrow> mem_params" where
  "memo_of_template tmpl =
     mem_from (get_default tmpl ''MemoryArray'' Map.empty)
       ''fidelity'' ''frequency'' ''efficiency'' ''coherence_time'' ''wavelength''"

definition qlan_create_node :: "node_decl \<Rightarrow> template \<Rightarrow> topology \<Rightarrow> topology outcome" where
  "qlan_create_node nd tmpl topo =
     (if nd_type nd = CLIENT then
        let topo1 = register_node nd
                      (new_node (nd_name nd) (QlanClientK (memo_of_template tmpl)) Map.empty
                         OtherRouting) topo
        in Inr (topo1\<lparr>tp_remote_memories := tp_remote_memories topo1 @ [nd_name nd],
                      tp_client_nodes := tp_client_nodes topo1 @ [nd_name nd]\<rparr>)
      else if nd_type nd = ORCHESTRATOR then
        let topo1 = register_node nd
                      (new_node (nd_name nd)
                         (QlanOrchestratorK (tp_impl_n_local_memories topo)
                            (tp_remote_memories topo) (memo_of_template tmpl)
                            (tp_impl_meas_bases topo))
                         Map.empty OtherRouting) topo
        in Inr (topo1\<lparr>tp_orchestrator_nodes := tp_orchestrator_nodes topo1 @ [nd_name nd]\<rparr>)
      else Inl (UnknownQlanNodeType (nd_type nd), topo))"

definition create_node ::
  "impl \<Rightarrow> (string \<rightharpoonup> node_class) \<Rightarrow> node_decl \<Rightarrow> template \<Rightarrow> topology \<Rightarrow> topology outcome"
  where
  "create_node i node_types nd tmpl topo =
     (case i of
        BsmNetworkImpl \<Rightarrow> bsm_create_node node_types nd tmpl topo
      | QlanNetworkImpl \<Rightarrow> qlan_create_node nd tmpl topo
      | NoOpNetworkImpl \<Rightarrow> Inl (NoOpCreateNode, topo))"

definition impl_ordered_node_dicts :: "impl \<Rightarrow> node_decl list \<Rightarrow> node_decl list" where
  "impl_ordered_node_dicts i node_list =
     (case i of QlanNetworkImpl \<Rightarrow> ordered_node_dicts node_list | _ \<Rightarrow> node_list)"

text \<open>\<^verbatim>\<open>self.templates.get(node_config.get(TEMPLATE), {})\<close>\<close>

definition template_of :: "(string \<rightharpoonup> template) \<Rightarrow> node_decl \<Rightarrow> template" where
  "template_of templates nd =
     (case nd_template nd of None \<Rightarrow> Map.empty
      | Some t \<Rightarrow> get_default templates t Map.empty)"

definition add_nodes :: "impl \<Rightarrow> (string \<rightharpoonup> node_class) \<Rightarrow> topology \<Rightarrow> topology outcome" where
  "add_nodes i node_types topo =
     fold_err (\<lambda>nd t. create_node i node_types nd (template_of (tp_templates t) nd) t)
       (impl_ordered_node_dicts i (cf_nodes (tp_config topo))) topo"

subsection \<open>Channel installation\<close>

definition add_qchannel :: "qchannel_decl \<Rightarrow> topology \<Rightarrow> topology" where
  "add_qchannel qc topo =
     (let src_str = qd_source qc; dst_str = qd_destination qc
      in case tp_tl topo src_str of
           None \<Rightarrow> topo
         | Some src_node \<Rightarrow>
             let name = (case qd_name qc of None \<Rightarrow> ''qc-'' @ src_str @ ''-'' @ dst_str
                         | Some n \<Rightarrow> n)
             in topo\<lparr>tp_qchannels := tp_qchannels topo @
                  [\<lparr>qo_name = name, qo_attenuation = qd_attenuation qc,
                    qo_distance = qd_distance qc, qo_sender = no_name src_node,
                    qo_receiver = dst_str\<rparr>]\<rparr>)"

definition add_qchannels :: "topology \<Rightarrow> topology" where
  "add_qchannels topo = fold add_qchannel (get_list (cf_qchannels (tp_config topo))) topo"

definition make_classical_channel ::
  "string \<Rightarrow> string \<Rightarrow> num \<Rightarrow> num \<Rightarrow> string option \<Rightarrow> topology \<Rightarrow> topology" where
  "make_classical_channel src_str dst_str distance delay name topo =
     (case tp_tl topo src_str of
        None \<Rightarrow> topo
      | Some src_obj \<Rightarrow>
          topo\<lparr>tp_cchannels := tp_cchannels topo @
            [\<lparr>co_name = (case name of None \<Rightarrow> ''cc-'' @ src_str @ ''-'' @ dst_str
                          | Some n \<Rightarrow> if n = [] then ''cc-'' @ src_str @ ''-'' @ dst_str else n),
              co_distance = distance, co_delay = delay, co_sender = no_name src_obj,
              co_receiver = dst_str\<rparr>]\<rparr>)"

definition add_cchannel :: "cchannel_decl \<Rightarrow> topology \<Rightarrow> topology" where
  "add_cchannel cc topo =
     make_classical_channel (cd_source cc) (cd_destination cc)
       (case cd_distance cc of None \<Rightarrow> - 1 | Some d \<Rightarrow> d)
       (case cd_delay cc of None \<Rightarrow> - 1 | Some d \<Rightarrow> d) (cd_name cc) topo"

definition add_cchannels :: "topology \<Rightarrow> topology" where
  "add_cchannels topo = fold add_cchannel (get_list (cf_cchannels (tp_config topo))) topo"

definition add_cconnection :: "cconnect_decl \<Rightarrow> topology \<Rightarrow> topology" where
  "add_cconnection c topo =
     (let distance = (case cn_distance c of None \<Rightarrow> - 1 | Some d \<Rightarrow> d);
          delay = (case cn_delay c of None \<Rightarrow> - 1 | Some d \<Rightarrow> d)
      in fold (\<lambda>(src_str, dst_str). make_classical_channel src_str dst_str distance delay None)
           (zip [cn_node1 c, cn_node2 c] [cn_node2 c, cn_node1 c]) topo)"

definition add_cconnections :: "topology \<Rightarrow> topology" where
  "add_cconnections topo = fold add_cconnection (cf_cconnections (tp_config topo)) topo"

subsection \<open>BsmNetworkImpl._generate_forwarding_table\<close>

text \<open>
  The undirected \<^verbatim>\<open>networkx.Graph\<close>: the nodes in insertion order and one weight per
  unordered pair, so adding an edge that is already there replaces its weight.
  \<^verbatim>\<open>dijkstra_path\<close> belongs to the graph library and is the parameter \<open>dj\<close>, which answers
  \<open>None\<close> where the library raises \<^verbatim>\<open>NetworkXNoPath\<close>; a source that is no node of the
  graph raises \<^verbatim>\<open>NodeNotFound\<close> before any search.
\<close>

record graph =
  g_nodes :: "string list"
  g_adj :: "string \<times> string \<rightharpoonup> num"

type_synonym dijkstra = "graph \<Rightarrow> string \<Rightarrow> string \<Rightarrow> string list option"

definition empty_graph :: graph where
  "empty_graph = \<lparr>g_nodes = [], g_adj = Map.empty\<rparr>"

definition add_graph_node :: "string \<Rightarrow> graph \<Rightarrow> graph" where
  "add_graph_node n g = (if n \<in> set (g_nodes g) then g else g\<lparr>g_nodes := g_nodes g @ [n]\<rparr>)"

definition add_weighted_edge :: "string \<Rightarrow> string \<Rightarrow> num \<Rightarrow> graph \<Rightarrow> graph" where
  "add_weighted_edge u v w g =
     (let g1 = add_graph_node v (add_graph_node u g)
      in g1\<lparr>g_adj := (g_adj g1)((u, v) \<mapsto> w, (v, u) \<mapsto> w)\<rparr>)"

definition dijkstra_path :: "dijkstra \<Rightarrow> graph \<Rightarrow> string \<Rightarrow> string \<Rightarrow> error + string list option"
  where
  "dijkstra_path dj g s t = (if s \<in> set (g_nodes g) then Inr (dj g s t) else Inl (NodeNotFound s))"

text \<open>The first loop: every declared node that is not a midpoint becomes a graph node.\<close>

definition graph_node_step :: "node_decl \<Rightarrow> graph \<Rightarrow> graph outcome" where
  "graph_node_step nd g =
     (case NodeType_of (nd_type nd) of
        None \<Rightarrow> Inl (InvalidNodeType (nd_type nd), g)
      | Some t \<Rightarrow> Inr (if t \<notin> MIDPOINT_NODE_TYPES then add_graph_node (nd_name nd) g else g))"

text \<open>The dictionary \<^verbatim>\<open>costs\<close>. An entry is the Python list of the sender names, the
  latest first, followed by the accumulated distance; it is kept as the pair of the names
  and the distance, and \<open>cost_info_nth\<close> reads it by position as the list is read.\<close>

type_synonym cost_info = "string list \<times> num"

definition costs_step :: "qchannel_obj \<Rightarrow> (string \<times> cost_info) list \<Rightarrow> (string \<times> cost_info) list"
  where
  "costs_step qc costs =
     (let router = qo_sender qc; bsm = qo_receiver qc
      in case map_of costs bsm of
           None \<Rightarrow> dict_set bsm ([router], qo_distance qc) costs
         | Some (rs, d) \<Rightarrow> dict_set bsm (router # rs, d + qo_distance qc) costs)"

definition build_costs :: "qchannel_obj list \<Rightarrow> (string \<times> cost_info) list" where
  "build_costs qchannels = fold costs_step qchannels []"

definition cost_info_nth :: "cost_info \<Rightarrow> nat \<Rightarrow> cost_val option" where
  "cost_info_nth info k =
     (if k < length (fst info) then Some (Str (fst info ! k))
      else if k = length (fst info) then Some (Num (snd info))
      else None)"

fun first_routing_protocol ::
  "timeline \<Rightarrow> (string \<times> string list) list \<Rightarrow> error + routing_kind option" where
  "first_routing_protocol tline [] = Inr None"
| "first_routing_protocol tline ((node_type, node_list) # rest) =
     (case NodeType_of node_type of
        None \<Rightarrow> Inl (InvalidNodeType node_type)
      | Some t \<Rightarrow>
          if t \<notin> MIDPOINT_NODE_TYPES \<and> node_list \<noteq> []
          then Inr (map_option no_routing (tline (hd node_list)))
          else first_routing_protocol tline rest)"

text \<open>\<^verbatim>\<open>graph.add_weighted_edges_from(costs.values())\<close>: every value must unpack into
  exactly \<^verbatim>\<open>u, v, d\<close>.\<close>

definition weighted_edge_step :: "string \<times> cost_info \<Rightarrow> graph \<Rightarrow> graph outcome" where
  "weighted_edge_step e g =
     (case fst (snd e) of
        [u, v] \<Rightarrow> Inr (add_weighted_edge u v (snd (snd e)) g)
      | _ \<Rightarrow> Inl (UnpackError (fst e), g))"

text \<open>Modelled from the spec: \<^verbatim>\<open>add_forwarding_rule\<close> of the static routing protocol
  installs "a forwarding rule mapping destination to the next hop" on the node.\<close>

definition add_forwarding_rule :: "string \<Rightarrow> string \<Rightarrow> string \<Rightarrow> timeline \<Rightarrow> timeline" where
  "add_forwarding_rule src dst next_node tline =
     (case tline src of None \<Rightarrow> tline
      | Some obj \<Rightarrow>
          tline(src \<mapsto> obj\<lparr>no_forwarding_table := (no_forwarding_table obj)(dst \<mapsto> next_node)\<rparr>))"

definition static_rule :: "dijkstra \<Rightarrow> graph \<Rightarrow> string \<Rightarrow> string \<Rightarrow> timeline \<Rightarrow> timeline outcome"
  where
  "static_rule dj g src dst_name tline =
     (if src = dst_name then Inr tline
      else case (if dst_name > src then dijkstra_path dj g src dst_name
                 else map_sum id (map_option rev) (dijkstra_path dj g dst_name src)) of
             Inl e \<Rightarrow> Inl (e, tline)
           | Inr None \<Rightarrow> Inr tline
           | Inr (Some path) \<Rightarrow>
               (case path of
                  a # b # _ \<Rightarrow> Inr (add_forwarding_rule src dst_name b tline)
                | _ \<Rightarrow> Inl (IndexError, tline)))"

text \<open>The loop over \<^verbatim>\<open>nodes.items()\<close> shared by both disciplines: midpoint types are
  skipped, every node of another type is visited.\<close>

definition for_endpoint_nodes ::
  "(string \<Rightarrow> timeline \<Rightarrow> timeline outcome) \<Rightarrow> (string \<times> string list) list \<Rightarrow> timeline
     \<Rightarrow> timeline outcome" where
  "for_endpoint_nodes body nodes tline =
     fold_err (\<lambda>(node_type, node_list) t.
        case NodeType_of node_type of
          None \<Rightarrow> Inl (InvalidNodeType node_type, t)
        | Some nt \<Rightarrow> if nt \<in> MIDPOINT_NODE_TYPES then Inr t else fold_err body node_list t)
       nodes tline"

definition set_link_cost :: "string \<Rightarrow> cost_val \<Rightarrow> cost_val \<Rightarrow> timeline \<Rightarrow> timeline" where
  "set_link_cost r neighbor cost tline =
     (case tline r of None \<Rightarrow> tline
      | Some obj \<Rightarrow> tline(r \<mapsto> obj\<lparr>no_link_cost := (no_link_cost obj)(neighbor \<mapsto> cost)\<rparr>))"

definition link_cost_step :: "string \<Rightarrow> string \<times> cost_info \<Rightarrow> timeline \<Rightarrow> timeline outcome" where
  "link_cost_step name e tline =
     (let cost_info = snd e
      in if name \<in> set (fst cost_info) then
           (case (if cost_info_nth cost_info 0 \<noteq> Some (Str name) then cost_info_nth cost_info 0
                  else cost_info_nth cost_info 1) of
              None \<Rightarrow> Inl (IndexError, tline)
            | Some neighbor \<Rightarrow>
                (case cost_info_nth cost_info 2 of
                   None \<Rightarrow> Inl (IndexError, tline)
                 | Some cost \<Rightarrow> Inr (set_link_cost name neighbor cost tline)))
         else Inr tline)"

definition bsm_generate_forwarding_table ::
  "dijkstra \<Rightarrow> config \<Rightarrow> (string \<times> string list) list \<Rightarrow> qchannel_obj list \<Rightarrow> timeline
     \<Rightarrow> timeline outcome" where
  "bsm_generate_forwarding_table dj cfg nodes qchannels tline =
     (case fold_err graph_node_step (cf_nodes cfg) empty_graph of
        Inl (e, _) \<Rightarrow> Inl (e, tline)
      | Inr graph0 \<Rightarrow>
          let costs = build_costs qchannels
          in case first_routing_protocol tline nodes of
               Inl e \<Rightarrow> Inl (e, tline)
             | Inr (Some StaticRouting) \<Rightarrow>
                 (case fold_err weighted_edge_step costs graph0 of
                    Inl (e, _) \<Rightarrow> Inl (e, tline)
                  | Inr g \<Rightarrow>
                      for_endpoint_nodes
                        (\<lambda>src. fold_err (static_rule dj g src) (g_nodes g)) nodes tline)
             | Inr (Some DistributedRouting) \<Rightarrow>
                 for_endpoint_nodes (\<lambda>q_router. fold_err (link_cost_step q_router) costs)
                   nodes tline
             | Inr _ \<Rightarrow> Inr tline)"

definition generate_forwarding_table :: "impl \<Rightarrow> dijkstra \<Rightarrow> topology \<Rightarrow> topology outcome" where
  "generate_forwarding_table i dj topo =
     (case i of
        BsmNetworkImpl \<Rightarrow>
          (case bsm_generate_forwarding_table dj (tp_config topo) (tp_nodes topo)
                  (tp_qchannels topo) (tp_tl topo) of
             Inl (e, tline) \<Rightarrow> Inl (e, topo\<lparr>tp_tl := tline\<rparr>)
           | Inr tline \<Rightarrow> Inr (topo\<lparr>tp_tl := tline\<rparr>))
      | _ \<Rightarrow> Inr topo)"

subsection \<open>Topology._run_pipeline\<close>

definition then_do :: "'s outcome \<Rightarrow> ('s \<Rightarrow> 's outcome) \<Rightarrow> 's outcome" where
  "then_do r f = (case r of Inl e \<Rightarrow> Inl e | Inr s \<Rightarrow> f s)"

definition get_templates :: "topology \<Rightarrow> topology" where
  "get_templates topo = topo\<lparr>tp_templates := cf_templates (tp_config topo)\<rparr>"

definition topo_add_qconnections :: "impl \<Rightarrow> num \<Rightarrow> topology \<Rightarrow> topology outcome" where
  "topo_add_qconnections i c topo =
     (case add_qconnections i c (tp_config topo) of
        Inl (e, cfg) \<Rightarrow> Inl (e, topo\<lparr>tp_config := cfg\<rparr>)
      | Inr cfg \<Rightarrow> Inr (topo\<lparr>tp_config := cfg\<rparr>))"

definition add_timeline :: "topology \<Rightarrow> topology" where
  "add_timeline topo = topo\<lparr>tp_tl := Map.empty\<rparr>"

definition run_pipeline ::
  "impl \<Rightarrow> (string \<rightharpoonup> node_class) \<Rightarrow> dijkstra \<Rightarrow> num \<Rightarrow> config \<Rightarrow> topology outcome" where
  "run_pipeline i node_types dj c cfg =
     then_do (then_do (then_do (then_do (then_do (then_do
       (add_parameters i (get_templates (topology_setup cfg)))
       (topo_add_qconnections i c))
       (\<lambda>t. map_bsm_routers i (add_timeline t)))
       (add_nodes i node_types))
       (add_bsm_node_to_router i))
       (\<lambda>t. Inr (add_cconnections (add_cchannels (add_qchannels t)))))
       (generate_forwarding_table i dj)"

text \<open>The constructor: a pipeline that raises returns no topology object.\<close>

definition construct_topology ::
  "impl \<Rightarrow> (string \<rightharpoonup> node_class) \<Rightarrow> dijkstra \<Rightarrow> num \<Rightarrow> config \<Rightarrow> error + topology" where
  "construct_topology i node_types dj c cfg =
     (case run_pipeline i node_types dj c cfg of Inl (e, _) \<Rightarrow> Inl e | Inr topo \<Rightarrow> Inr topo)"

definition nodeR1 :: node_obj where
  "nodeR1 = new_node ''r1'' (EndpointK []) Map.empty StaticRouting"

definition topoC :: topology where
  "topoC = (topology_setup
     (cfgA\<lparr>cf_qchannels := Some
         [\<lparr>qd_name = None, qd_source = ''ghost'', qd_destination = ''m'', qd_distance = 7,
           qd_attenuation = 0\<rparr>,
          \<lparr>qd_name = None, qd_source = ''r1'', qd_destination = ''m'', qd_distance = 500,
           qd_attenuation = 2 / 10000\<rparr>],
        cf_cchannels := Some
         [\<lparr>cd_name = None, cd_source = ''ghost'', cd_destination = ''m'', cd_distance = None,
           cd_delay = None\<rparr>,
          \<lparr>cd_name = None, cd_source = ''r1'', cd_destination = ''m'', cd_distance = None,
           cd_delay = Some 5\<rparr>]\<rparr>))
     \<lparr>tp_tl := [''r1'' \<mapsto> nodeR1]\<rparr>"

definition cfgD :: config where
  "cfgD = cfgA\<lparr>cf_qchannels := Some
            [\<lparr>qd_name = None, qd_source = ''r1'', qd_destination = ''r2'', qd_distance = 1000,
              qd_attenuation = 2 / 10000\<rparr>]\<rparr>"

subsection \<open>Example registries and configs\<close>


definition distributed_class :: node_class where
  "distributed_class tmpl = DistributedRouting"

definition no_path :: dijkstra where
  "no_path g s t = None"





definition cfgLegacy :: config where
  "cfgLegacy = \<lparr>cf_nodes = [mk_node ''Orchestrator'' ORCHESTRATOR 0, mk_node ''client1'' CLIENT 1],
     cf_qconnections = [], cf_cconnections = [], cf_qchannels = None, cf_cchannels = None,
     cf_templates = Map.empty,
     cf_flat = [''memo_fidelity_orch'' \<mapsto> 8 / 10, ''memo_fidelity_client'' \<mapsto> 8 / 10,
                ''local_memories'' \<mapsto> 2],
     cf_measurement_bases = Some ''xx''\<rparr>"

definition cfgTemplated :: config where
  "cfgTemplated = \<lparr>cf_nodes =
       [(mk_node ''Orchestrator'' ORCHESTRATOR 0)\<lparr>nd_template := Some ''orch_hw''\<rparr>,
        (mk_node ''client1'' CLIENT 1)\<lparr>nd_template := Some ''client_hw''\<rparr>],
     cf_qconnections = [], cf_cconnections = [], cf_qchannels = None, cf_cchannels = None,
     cf_templates = [''orch_hw'' \<mapsto> [''MemoryArray'' \<mapsto> [''fidelity'' \<mapsto> 8 / 10]],
                     ''client_hw'' \<mapsto> [''MemoryArray'' \<mapsto> [''fidelity'' \<mapsto> 8 / 10]]],
     cf_flat = [''local_memories'' \<mapsto> 2],
     cf_measurement_bases = Some ''xx''\<rparr>"

text \<open>The memory parameters a QLAN node object was constructed with.\<close>

definition node_memory :: "topology \<Rightarrow> string \<Rightarrow> mem_params option" where
  "node_memory topo name =
     (case tp_tl topo name of
        None \<Rightarrow> None
      | Some obj \<Rightarrow>
          (case no_kind obj of
             QlanClientK m \<Rightarrow> Some m
           | QlanOrchestratorK _ _ m _ \<Rightarrow> Some m
           | _ \<Rightarrow> None))"

definition mem :: "num \<Rightarrow> mem_params" where
  "mem fid = \<lparr>mp_fidelity = fid, mp_frequency = 2000, mp_efficiency = 1,
              mp_coherence_time = - 1, mp_wavelength = 500\<rparr>"





text \<open>The channel object that the installer builds from the quantum-channel declaration
  derived for one end of a meet-in-the-middle connection.\<close>

definition midpoint_qchannel :: "string \<Rightarrow> string \<Rightarrow> num \<Rightarrow> num \<Rightarrow> qchannel_obj" where
  "midpoint_qchannel src bsm distance attenuation =
     \<lparr>qo_name = ''QC.'' @ src @ ''.'' @ bsm, qo_attenuation = attenuation,
      qo_distance = distance, qo_sender = src, qo_receiver = bsm\<rparr>"

text \<open>The quantum channels of a star: one meet-in-the-middle connection of total distance
  \<open>d\<close> from the center to every leaf \<open>l\<close>.\<close>

definition star_qchannels :: "string \<Rightarrow> num \<Rightarrow> (string \<times> num) list \<Rightarrow> qchannel_obj list" where
  "star_qchannels center a ls =
     concat (map (\<lambda>(l, d).
        [midpoint_qchannel center (bsm_name_of center l) (of_int \<lfloor>d / 2\<rfloor>) a,
         midpoint_qchannel l (bsm_name_of center l) (of_int \<lfloor>d / 2\<rfloor>) a]) ls)"





text \<open>The quantum connections of the star.\<close>

definition star_qconnections :: "string \<Rightarrow> num \<Rightarrow> (string \<times> num) list \<Rightarrow> qconnect_decl list" where
  "star_qconnections center a ls =
     map (\<lambda>(l, d). \<lparr>qn_node1 = center, qn_node2 = l, qn_attenuation = a, qn_distance = d,
                     qn_type = MEET_IN_THE_MID, qn_seed = None, qn_template = None\<rparr>) ls"

section \<open>Theorems\<close>

subsection \<open>Ordering contract of the dual-role factory\<close>

lemma index_append_cases:
  "i < length (xs @ ys) \<Longrightarrow> (i < length xs \<and> (xs @ ys) ! i = xs ! i)
     \<or> (length xs \<le> i \<and> i - length xs < length ys \<and> (xs @ ys) ! i = ys ! (i - length xs))"
  by (auto simp: nth_append)

text \<open>
  C6 (as the code has it). The construction order of the dual-role factory is: the
  declarations that are neither client nor orchestrator first, then the client
  declarations, then the orchestrator declarations, each group in declaration order;
  hence every client declaration comes before every orchestrator declaration.
\<close>

theorem ordered_node_dicts_order:
  "ordered_node_dicts ns =
     filter (\<lambda>n. nd_type n \<noteq> CLIENT \<and> nd_type n \<noteq> ORCHESTRATOR) ns
     @ filter (\<lambda>n. nd_type n = CLIENT) ns
     @ filter (\<lambda>n. nd_type n = ORCHESTRATOR) ns
   \<and> (\<forall>i j. i < length (ordered_node_dicts ns) \<and> j < length (ordered_node_dicts ns)
         \<and> nd_type (ordered_node_dicts ns ! i) = CLIENT
         \<and> nd_type (ordered_node_dicts ns ! j) = ORCHESTRATOR \<longrightarrow> i < j)"
proof -
  let ?o = "filter (\<lambda>n. nd_type n \<noteq> CLIENT \<and> nd_type n \<noteq> ORCHESTRATOR) ns"
  let ?c = "filter (\<lambda>n. nd_type n = CLIENT) ns"
  let ?r = "filter (\<lambda>n. nd_type n = ORCHESTRATOR) ns"
  have eq: "ordered_node_dicts ns = ?o @ ?c @ ?r"
    by (simp add: ordered_node_dicts_def Let_def)
  have ne: "CLIENT \<noteq> ORCHESTRATOR" by (simp add: type_consts)
  have o_ty: "\<And>k. k < length ?o \<Longrightarrow> nd_type (?o ! k) \<noteq> CLIENT \<and> nd_type (?o ! k) \<noteq> ORCHESTRATOR"
    using nth_mem[of _ ?o] by fastforce
  have c_ty: "\<And>k. k < length ?c \<Longrightarrow> nd_type (?c ! k) = CLIENT"
    using nth_mem[of _ ?c] by fastforce
  have r_ty: "\<And>k. k < length ?r \<Longrightarrow> nd_type (?r ! k) = ORCHESTRATOR"
    using nth_mem[of _ ?r] by fastforce
  have pos: "i < j"
    if i: "i < length (?o @ ?c @ ?r)" and j: "j < length (?o @ ?c @ ?r)"
      and ti: "nd_type ((?o @ ?c @ ?r) ! i) = CLIENT"
      and tj: "nd_type ((?o @ ?c @ ?r) ! j) = ORCHESTRATOR" for i j
  proof -
    have i_lo: "length ?o \<le> i"
    proof (rule ccontr)
      assume "\<not> length ?o \<le> i"
      then have "i < length ?o" by simp
      then have "nd_type ((?o @ ?c @ ?r) ! i) \<noteq> CLIENT"
        using o_ty[of i] by (simp add: nth_append)
      with ti show False by simp
    qed
    have i_hi: "i < length ?o + length ?c"
    proof (rule ccontr)
      assume a: "\<not> i < length ?o + length ?c"
      then have "(?o @ ?c @ ?r) ! i = ?r ! (i - length ?o - length ?c)"
        by (simp add: nth_append)
      moreover have "i - length ?o - length ?c < length ?r" using a i by simp
      ultimately have "nd_type ((?o @ ?c @ ?r) ! i) = ORCHESTRATOR"
        using r_ty by simp
      with ti ne show False by simp
    qed
    have j_lo: "length ?o + length ?c \<le> j"
    proof (rule ccontr)
      assume a: "\<not> length ?o + length ?c \<le> j"
      show False
      proof (cases "j < length ?o")
        case True
        then have "nd_type ((?o @ ?c @ ?r) ! j) \<noteq> ORCHESTRATOR"
          using o_ty[of j] by (simp add: nth_append)
        with tj show False by simp
      next
        case False
        then have "(?o @ ?c @ ?r) ! j = ?c ! (j - length ?o)"
          using a by (simp add: nth_append)
        moreover have "j - length ?o < length ?c" using a False by simp
        ultimately have "nd_type ((?o @ ?c @ ?r) ! j) = CLIENT" using c_ty by simp
        with tj ne show False by simp
      qed
    qed
    from i_hi j_lo show ?thesis by simp
  qed
  show ?thesis unfolding eq using pos by blast
qed

theorem ordered_node_dicts_order_witness:
  "ordered_node_dicts [mk_node ''o'' ORCHESTRATOR 0, mk_node ''c'' CLIENT 1]
     = [mk_node ''c'' CLIENT 1, mk_node ''o'' ORCHESTRATOR 0]
   \<and> nd_type (ordered_node_dicts [mk_node ''o'' ORCHESTRATOR 0, mk_node ''c'' CLIENT 1] ! 0)
       = CLIENT
   \<and> nd_type (ordered_node_dicts [mk_node ''o'' ORCHESTRATOR 0, mk_node ''c'' CLIENT 1] ! 1)
       = ORCHESTRATOR
   \<and> (0::nat) < 1"
  using ordered_node_dicts_order[of "[mk_node ''o'' ORCHESTRATOR 0, mk_node ''c'' CLIENT 1]"]
  by (simp add: mk_node_def type_consts)

text \<open>
  The order "clients, then others, then orchestrators" is not the one constructed: a
  declaration of another type listed after a client is moved in front of it.
\<close>

theorem ordered_node_dicts_spec_order_counterexample:
  "ordered_node_dicts [mk_node ''c'' CLIENT 1, mk_node ''r'' QUANTUM_ROUTER 2]
     \<noteq> spec_ordered_node_dicts [mk_node ''c'' CLIENT 1, mk_node ''r'' QUANTUM_ROUTER 2]"
  by (simp add: ordered_node_dicts_def spec_ordered_node_dicts_def mk_node_def type_consts)





subsection \<open>Derived classical delay\<close>





subsection \<open>Expansion of a quantum connection\<close>

text \<open>
  C4. A "meet in the middle" quantum connection appends exactly one midpoint declaration
  named \<open>BSM.n1.n2.auto\<close> of type \<open>BSMNode\<close>, one quantum channel from each endpoint to
  the midpoint with the halved distance (integer division for an integral distance) and
  the connection's attenuation, and classical channels both ways between each endpoint and
  the midpoint with the derived delay. Any other kind raises the unsupported-kind error
  and leaves the config as it was.
\<close>

theorem bsm_handle_qconnection_expansion:
  "bsm_handle_qconnection q cc_delay cfg =
     (if qn_type q = ''meet_in_the_middle'' then
        Inr (cfg\<lparr>
          cf_nodes := cf_nodes cfg @
            [\<lparr>nd_name = ''BSM.'' @ qn_node1 q @ ''.'' @ qn_node2 q @ ''.auto'',
              nd_type = ''BSMNode'',
              nd_seed = (case qn_seed q of None \<Rightarrow> 0 | Some s \<Rightarrow> s),
              nd_template = qn_template q, nd_memo_size = None, nd_data_memo_size = None\<rparr>],
          cf_qchannels := Some (get_list (cf_qchannels cfg) @
            [\<lparr>qd_name = Some (''QC.'' @ qn_node1 q @ ''.'' @ ''BSM.'' @ qn_node1 q @ ''.'' @ qn_node2 q @ ''.auto''),
              qd_source = qn_node1 q,
              qd_destination = ''BSM.'' @ qn_node1 q @ ''.'' @ qn_node2 q @ ''.auto'',
              qd_distance = of_int \<lfloor>qn_distance q / 2\<rfloor>,
              qd_attenuation = qn_attenuation q\<rparr>,
             \<lparr>qd_name = Some (''QC.'' @ qn_node2 q @ ''.'' @ ''BSM.'' @ qn_node1 q @ ''.'' @ qn_node2 q @ ''.auto''),
              qd_source = qn_node2 q,
              qd_destination = ''BSM.'' @ qn_node1 q @ ''.'' @ qn_node2 q @ ''.auto'',
              qd_distance = of_int \<lfloor>qn_distance q / 2\<rfloor>,
              qd_attenuation = qn_attenuation q\<rparr>]),
          cf_cchannels := Some (get_list (cf_cchannels cfg) @
            [\<lparr>cd_name = Some (''CC.'' @ qn_node1 q @ ''.'' @ ''BSM.'' @ qn_node1 q @ ''.'' @ qn_node2 q @ ''.auto''),
              cd_source = qn_node1 q,
              cd_destination = ''BSM.'' @ qn_node1 q @ ''.'' @ qn_node2 q @ ''.auto'',
              cd_distance = Some (of_int \<lfloor>qn_distance q / 2\<rfloor>),
              cd_delay = Some (of_int cc_delay)\<rparr>,
             \<lparr>cd_name = Some (''CC.'' @ ''BSM.'' @ qn_node1 q @ ''.'' @ qn_node2 q @ ''.auto'' @ ''.'' @ qn_node1 q),
              cd_source = ''BSM.'' @ qn_node1 q @ ''.'' @ qn_node2 q @ ''.auto'',
              cd_destination = qn_node1 q,
              cd_distance = Some (of_int \<lfloor>qn_distance q / 2\<rfloor>),
              cd_delay = Some (of_int cc_delay)\<rparr>,
             \<lparr>cd_name = Some (''CC.'' @ qn_node2 q @ ''.'' @ ''BSM.'' @ qn_node1 q @ ''.'' @ qn_node2 q @ ''.auto''),
              cd_source = qn_node2 q,
              cd_destination = ''BSM.'' @ qn_node1 q @ ''.'' @ qn_node2 q @ ''.auto'',
              cd_distance = Some (of_int \<lfloor>qn_distance q / 2\<rfloor>),
              cd_delay = Some (of_int cc_delay)\<rparr>,
             \<lparr>cd_name = Some (''CC.'' @ ''BSM.'' @ qn_node1 q @ ''.'' @ qn_node2 q @ ''.auto'' @ ''.'' @ qn_node2 q),
              cd_source = ''BSM.'' @ qn_node1 q @ ''.'' @ qn_node2 q @ ''.auto'',
              cd_destination = qn_node2 q,
              cd_distance = Some (of_int \<lfloor>qn_distance q / 2\<rfloor>),
              cd_delay = Some (of_int cc_delay)\<rparr>])\<rparr>)
      else Inl (UnknownConnectionType (qn_type q), cfg))
   \<and> (\<forall>k::int. qn_distance q = of_int k \<longrightarrow> \<lfloor>qn_distance q / 2\<rfloor> = k div 2)"
proof
  show "\<forall>k::int. qn_distance q = of_int k \<longrightarrow> \<lfloor>qn_distance q / 2\<rfloor> = k div 2"
  proof (intro allI impI)
    fix k :: int
    assume "qn_distance q = of_int k"
    then have "\<lfloor>qn_distance q / 2\<rfloor> = \<lfloor>(of_int k :: real) / of_int 2\<rfloor>" by simp
    also have "\<dots> = k div 2" by (rule floor_divide_of_int_eq)
    finally show "\<lfloor>qn_distance q / 2\<rfloor> = k div 2" .
  qed
qed (simp add: bsm_handle_qconnection_def Let_def append_channels_def get_list_def
      auto_bsm_decl_def auto_qchannel_def auto_cchannel_def bsm_name_of_def MEET_IN_THE_MID_def
      BSM_NODE_def)

theorem bsm_handle_qconnection_expansion_witness:
  "qn_type qA = ''meet_in_the_middle''
   \<and> (\<exists>cfg'. bsm_handle_qconnection qA 5 cfgA = Inr cfg'
        \<and> map nd_name (cf_nodes cfg') = [''r1'', ''r2'', ''BSM.r1.r2.auto'']
        \<and> map qd_distance (get_list (cf_qchannels cfg')) = [1000, 1000]
        \<and> map cd_source (get_list (cf_cchannels cfg'))
            = [''r1'', ''BSM.r1.r2.auto'', ''r2'', ''BSM.r1.r2.auto''])
   \<and> bsm_handle_qconnection (qA\<lparr>qn_type := ''direct''\<rparr>) 5 cfgA
       = Inl (UnknownConnectionType ''direct'', cfgA)
   \<and> qn_distance qA = of_int 2001 \<and> \<lfloor>qn_distance qA / 2\<rfloor> = 2001 div 2"
proof -
  have d: "qn_distance qA = of_int 2001" by (simp add: qA_def)
  have ty: "qn_type qA = ''meet_in_the_middle''" by (simp add: qA_def MEET_IN_THE_MID_def)
  note ex = bsm_handle_qconnection_expansion[of qA 5 cfgA]
  have fl: "\<lfloor>qn_distance qA / 2\<rfloor> = 2001 div 2"
    using conjunct2[OF ex] d by simp
  have ok: "\<exists>cfg'. bsm_handle_qconnection qA 5 cfgA = Inr cfg'
        \<and> map nd_name (cf_nodes cfg') = [''r1'', ''r2'', ''BSM.r1.r2.auto'']
        \<and> map qd_distance (get_list (cf_qchannels cfg')) = [1000, 1000]
        \<and> map cd_source (get_list (cf_cchannels cfg'))
            = [''r1'', ''BSM.r1.r2.auto'', ''r2'', ''BSM.r1.r2.auto'']"
    unfolding conjunct1[OF ex]
    by (simp add: qA_def cfgA_def MEET_IN_THE_MID_def mk_node_def get_list_def)
  have bad: "bsm_handle_qconnection (qA\<lparr>qn_type := ''direct''\<rparr>) 5 cfgA
       = Inl (UnknownConnectionType ''direct'', cfgA)"
    unfolding conjunct1[OF bsm_handle_qconnection_expansion[of "qA\<lparr>qn_type := ''direct''\<rparr>" 5 cfgA]]
    by simp
  show ?thesis using d ty fl ok bad by simp
qed



subsection \<open>Default distance in the delay derivation\<close>



lemma fold_add_qchannel:
  "tp_tl (fold add_qchannel qcs topo) = tp_tl topo
   \<and> tp_config (fold add_qchannel qcs topo) = tp_config topo
   \<and> tp_cchannels (fold add_qchannel qcs topo) = tp_cchannels topo
   \<and> tp_nodes (fold add_qchannel qcs topo) = tp_nodes topo
   \<and> tp_qchannels (fold add_qchannel qcs topo) = tp_qchannels topo @
       map (\<lambda>qc. \<lparr>qo_name = (case qd_name qc of
                                None \<Rightarrow> ''qc-'' @ qd_source qc @ ''-'' @ qd_destination qc
                              | Some n \<Rightarrow> n),
                    qo_attenuation = qd_attenuation qc, qo_distance = qd_distance qc,
                    qo_sender = no_name (the (tp_tl topo (qd_source qc))),
                    qo_receiver = qd_destination qc\<rparr>)
         (filter (\<lambda>qc. tp_tl topo (qd_source qc) \<noteq> None) qcs)"
proof (induction qcs arbitrary: topo)
  case Nil
  then show ?case by simp
next
  case (Cons qc qcs)
  have tl1: "tp_tl (add_qchannel qc topo) = tp_tl topo"
    and cf1: "tp_config (add_qchannel qc topo) = tp_config topo"
    and cc1: "tp_cchannels (add_qchannel qc topo) = tp_cchannels topo"
    and nd1: "tp_nodes (add_qchannel qc topo) = tp_nodes topo"
    by (simp_all add: add_qchannel_def Let_def split: option.splits)
  show ?case
  proof (cases "tp_tl topo (qd_source qc)")
    case None
    then have "add_qchannel qc topo = topo" by (simp add: add_qchannel_def Let_def)
    then show ?thesis using Cons.IH[of topo] None by simp
  next
    case (Some obj)
    then have q1: "tp_qchannels (add_qchannel qc topo) = tp_qchannels topo @
        [\<lparr>qo_name = (case qd_name qc of
                                None \<Rightarrow> ''qc-'' @ qd_source qc @ ''-'' @ qd_destination qc
                              | Some n \<Rightarrow> n),
                    qo_attenuation = qd_attenuation qc, qo_distance = qd_distance qc,
                    qo_sender = no_name obj,
                    qo_receiver = qd_destination qc\<rparr>]"
      by (simp add: add_qchannel_def Let_def)
    show ?thesis using Cons.IH[of "add_qchannel qc topo"] Some
      by (simp add: tl1 cf1 cc1 nd1 q1)
  qed
qed

lemma make_classical_channel_frame:
  "tp_tl (make_classical_channel s d dst0 dly nm topo) = tp_tl topo
   \<and> tp_config (make_classical_channel s d dst0 dly nm topo) = tp_config topo
   \<and> tp_qchannels (make_classical_channel s d dst0 dly nm topo) = tp_qchannels topo
   \<and> tp_nodes (make_classical_channel s d dst0 dly nm topo) = tp_nodes topo"
  by (simp add: make_classical_channel_def split: option.splits)

lemma fold_add_cchannel:
  "tp_tl (fold add_cchannel ccs topo) = tp_tl topo
   \<and> tp_config (fold add_cchannel ccs topo) = tp_config topo
   \<and> tp_qchannels (fold add_cchannel ccs topo) = tp_qchannels topo
   \<and> tp_nodes (fold add_cchannel ccs topo) = tp_nodes topo
   \<and> tp_cchannels (fold add_cchannel ccs topo) = tp_cchannels topo @
       map (\<lambda>cc. \<lparr>co_name = (case cd_name cc of
                                None \<Rightarrow> ''cc-'' @ cd_source cc @ ''-'' @ cd_destination cc
                              | Some n \<Rightarrow> if n = [] then ''cc-'' @ cd_source cc @ ''-'' @ cd_destination cc else n),
                    co_distance = (case cd_distance cc of None \<Rightarrow> - 1 | Some x \<Rightarrow> x),
                    co_delay = (case cd_delay cc of None \<Rightarrow> - 1 | Some x \<Rightarrow> x),
                    co_sender = no_name (the (tp_tl topo (cd_source cc))),
                    co_receiver = cd_destination cc\<rparr>)
         (filter (\<lambda>cc. tp_tl topo (cd_source cc) \<noteq> None) ccs)"
proof (induction ccs arbitrary: topo)
  case Nil
  then show ?case by simp
next
  case (Cons cc ccs)
  note fr = make_classical_channel_frame[of "cd_source cc" "cd_destination cc"
      "case cd_distance cc of None \<Rightarrow> - 1 | Some x \<Rightarrow> x"
      "case cd_delay cc of None \<Rightarrow> - 1 | Some x \<Rightarrow> x" "cd_name cc" topo]
  have tl1: "tp_tl (add_cchannel cc topo) = tp_tl topo"
    and cf1: "tp_config (add_cchannel cc topo) = tp_config topo"
    and qc1: "tp_qchannels (add_cchannel cc topo) = tp_qchannels topo"
    and nd1: "tp_nodes (add_cchannel cc topo) = tp_nodes topo"
    using fr by (simp_all add: add_cchannel_def)
  show ?case
  proof (cases "tp_tl topo (cd_source cc)")
    case None
    then have "add_cchannel cc topo = topo"
      by (simp add: add_cchannel_def make_classical_channel_def)
    then show ?thesis using Cons.IH[of topo] None by simp
  next
    case (Some obj)
    then have c1: "tp_cchannels (add_cchannel cc topo) = tp_cchannels topo @
        [\<lparr>co_name = (case cd_name cc of
                                None \<Rightarrow> ''cc-'' @ cd_source cc @ ''-'' @ cd_destination cc
                              | Some n \<Rightarrow> if n = [] then ''cc-'' @ cd_source cc @ ''-'' @ cd_destination cc else n),
                    co_distance = (case cd_distance cc of None \<Rightarrow> - 1 | Some x \<Rightarrow> x),
                    co_delay = (case cd_delay cc of None \<Rightarrow> - 1 | Some x \<Rightarrow> x),
                    co_sender = no_name obj,
                    co_receiver = cd_destination cc\<rparr>]"
      by (simp add: add_cchannel_def make_classical_channel_def)
    show ?thesis using Cons.IH[of "add_cchannel cc topo"] Some
      by (simp add: tl1 cf1 qc1 nd1 c1)
  qed
qed

subsection \<open>Channel installation\<close>

text \<open>
  C8. Installing the quantum-channel and the classical-channel declarations creates, in
  declaration order, exactly one channel object for every declaration whose source name
  resolves in the timeline, with the declared numeric parameters (a classical distance
  or delay that is absent reads \<open>-1\<close>), the resolved source object as sender and the
  destination name as receiver; a declaration whose source does not resolve is passed
  over, and the functions have no error outcome. Nodes and timeline are left as they were.
\<close>

theorem channel_installation:
  "tp_qchannels (add_qchannels topo) = tp_qchannels topo @
       map (\<lambda>qc. \<lparr>qo_name = (case qd_name qc of
                                None \<Rightarrow> ''qc-'' @ qd_source qc @ ''-'' @ qd_destination qc
                              | Some n \<Rightarrow> n),
                    qo_attenuation = qd_attenuation qc, qo_distance = qd_distance qc,
                    qo_sender = no_name (the (tp_tl topo (qd_source qc))),
                    qo_receiver = qd_destination qc\<rparr>)
         (filter (\<lambda>qc. tp_tl topo (qd_source qc) \<noteq> None)
            (get_list (cf_qchannels (tp_config topo))))
   \<and> tp_cchannels (add_cchannels topo) = tp_cchannels topo @
       map (\<lambda>cc. \<lparr>co_name = (case cd_name cc of
                                None \<Rightarrow> ''cc-'' @ cd_source cc @ ''-'' @ cd_destination cc
                              | Some n \<Rightarrow> if n = [] then ''cc-'' @ cd_source cc @ ''-'' @ cd_destination cc else n),
                    co_distance = (case cd_distance cc of None \<Rightarrow> - 1 | Some x \<Rightarrow> x),
                    co_delay = (case cd_delay cc of None \<Rightarrow> - 1 | Some x \<Rightarrow> x),
                    co_sender = no_name (the (tp_tl topo (cd_source cc))),
                    co_receiver = cd_destination cc\<rparr>)
         (filter (\<lambda>cc. tp_tl topo (cd_source cc) \<noteq> None)
            (get_list (cf_cchannels (tp_config topo))))
   \<and> tp_tl (add_qchannels topo) = tp_tl topo \<and> tp_tl (add_cchannels topo) = tp_tl topo
   \<and> tp_nodes (add_qchannels topo) = tp_nodes topo \<and> tp_nodes (add_cchannels topo) = tp_nodes topo
   \<and> tp_cchannels (add_qchannels topo) = tp_cchannels topo
   \<and> tp_qchannels (add_cchannels topo) = tp_qchannels topo"
  using fold_add_qchannel[of "get_list (cf_qchannels (tp_config topo))" topo]
    fold_add_cchannel[of "get_list (cf_cchannels (tp_config topo))" topo]
  by (simp add: add_qchannels_def add_cchannels_def)

theorem channel_installation_witness:
  "tp_tl topoC ''ghost'' = None \<and> tp_tl topoC ''r1'' = Some nodeR1
   \<and> tp_qchannels (add_qchannels topoC)
       = [\<lparr>qo_name = ''qc-r1-m'', qo_attenuation = 2 / 10000, qo_distance = 500,
           qo_sender = ''r1'', qo_receiver = ''m''\<rparr>]
   \<and> tp_cchannels (add_cchannels topoC)
       = [\<lparr>co_name = ''cc-r1-m'', co_distance = - 1, co_delay = 5,
           co_sender = ''r1'', co_receiver = ''m''\<rparr>]"
proof -
  have a: "tp_tl topoC ''ghost'' = None" and b: "tp_tl topoC ''r1'' = Some nodeR1"
    by (simp_all add: topoC_def)
  have q: "tp_qchannels (add_qchannels topoC)
       = [\<lparr>qo_name = ''qc-r1-m'', qo_attenuation = 2 / 10000, qo_distance = 500,
           qo_sender = ''r1'', qo_receiver = ''m''\<rparr>]"
    unfolding conjunct1[OF channel_installation[of topoC]]
    by (simp add: topoC_def topology_setup_def cfgA_def get_list_def nodeR1_def new_node_def)
  have c: "tp_cchannels (add_cchannels topoC)
       = [\<lparr>co_name = ''cc-r1-m'', co_distance = - 1, co_delay = 5,
           co_sender = ''r1'', co_receiver = ''m''\<rparr>]"
    unfolding conjunct1[OF conjunct2[OF channel_installation[of topoC]]]
    by (simp add: topoC_def topology_setup_def cfgA_def get_list_def nodeR1_def new_node_def)
  show ?thesis using a b q c by simp
qed

lemma map_of_dict_set: "map_of (dict_set k v m) = (map_of m)(k \<mapsto> v)"
  by (induction m) (auto simp: fun_eq_iff)

lemma map_of_map_bsm_routers_step:
  "map_of (map_bsm_routers_step qc m) d =
     (if qd_destination qc = d
      then Some ((case map_of m d of None \<Rightarrow> [] | Some l \<Rightarrow> l) @ [qd_source qc])
      else map_of m d)"
  by (simp add: map_bsm_routers_step_def Let_def map_of_dict_set split: option.splits)

lemma map_of_fold_map_bsm_routers:
  "map_of (fold map_bsm_routers_step qcs m) d =
     (case map_of m d of
        None \<Rightarrow> (if filter (\<lambda>qc. qd_destination qc = d) qcs = [] then None
                  else Some (map qd_source (filter (\<lambda>qc. qd_destination qc = d) qcs)))
      | Some l \<Rightarrow> Some (l @ map qd_source (filter (\<lambda>qc. qd_destination qc = d) qcs)))"
proof (induction qcs arbitrary: m)
  case Nil
  then show ?case by (simp split: option.splits)
next
  case (Cons qc qcs)
  have "map_of (fold map_bsm_routers_step (qc # qcs) m) d
        = map_of (fold map_bsm_routers_step qcs (map_bsm_routers_step qc m)) d"
    by simp
  also have "\<dots> = (case map_of (map_bsm_routers_step qc m) d of
        None \<Rightarrow> (if filter (\<lambda>qc. qd_destination qc = d) qcs = [] then None
                  else Some (map qd_source (filter (\<lambda>qc. qd_destination qc = d) qcs)))
      | Some l \<Rightarrow> Some (l @ map qd_source (filter (\<lambda>qc. qd_destination qc = d) qcs)))"
    by (rule Cons.IH)
  finally show ?case
    by (simp add: map_of_map_bsm_routers_step split: option.splits)
qed

lemma fold_err_unpack:
  "\<exists>e \<in> set m. length (snd e) \<noteq> 2 \<Longrightarrow>
   \<exists>n t. fold_err add_bsm_node_to_router_step m topo = Inl (UnpackError n, t)"
proof (induction m arbitrary: topo)
  case Nil
  then show ?case by simp
next
  case (Cons e m)
  show ?case
  proof (cases "length (snd e) = 2")
    case True
    then obtain a b where ab: "snd e = [a, b]"
      by (cases "snd e"; simp; case_tac list; simp)
    from True Cons.prems have "\<exists>e \<in> set m. length (snd e) \<noteq> 2" by auto
    from Cons.IH[OF this] show ?thesis
      by (simp add: add_bsm_node_to_router_step_def ab)
  next
    case False
    then have "add_bsm_node_to_router_step e topo = Inl (UnpackError (fst e), topo)"
      by (cases "snd e"; simp add: add_bsm_node_to_router_step_def; case_tac list; simp;
          case_tac lista; simp)
    then show ?thesis by simp
  qed
qed

lemma bsm_handle_qconnection_qchannels:
  "bsm_handle_qconnection q dl cfg = Inr cfg' \<Longrightarrow>
   \<exists>a b. get_list (cf_qchannels cfg') = get_list (cf_qchannels cfg) @ [a, b]
     \<and> qd_destination a = qd_destination b"
  by (auto simp: bsm_handle_qconnection_def Let_def append_channels_def get_list_def
      auto_qchannel_def split: if_splits)

lemma add_qconnections_loop_count:
  "add_qconnections_loop BsmNetworkImpl c qs cfg = Inr cfg' \<Longrightarrow>
   \<exists>n. length (filter (\<lambda>qc. qd_destination qc = d) (get_list (cf_qchannels cfg')))
        = length (filter (\<lambda>qc. qd_destination qc = d) (get_list (cf_qchannels cfg))) + 2 * n"
proof (induction qs arbitrary: cfg)
  case Nil
  then show ?case by simp
next
  case (Cons q qs)
  from Cons.prems obtain cfg1 where
    h: "bsm_handle_qconnection q (halved_mean (cc_delay_list c cfg q)) cfg = Inr cfg1"
    and r: "add_qconnections_loop BsmNetworkImpl c qs cfg1 = Inr cfg'"
    by (auto simp: Let_def handle_qconnection_def split: if_splits sum.splits)
  from bsm_handle_qconnection_qchannels[OF h] obtain a b where
    ab: "get_list (cf_qchannels cfg1) = get_list (cf_qchannels cfg) @ [a, b]"
    and same: "qd_destination a = qd_destination b" by blast
  from Cons.IH[OF r] obtain n where
    n: "length (filter (\<lambda>qc. qd_destination qc = d) (get_list (cf_qchannels cfg')))
        = length (filter (\<lambda>qc. qd_destination qc = d) (get_list (cf_qchannels cfg1))) + 2 * n"
    by blast
  show ?case
  proof (cases "qd_destination a = d")
    case True
    then have "length (filter (\<lambda>qc. qd_destination qc = d) (get_list (cf_qchannels cfg')))
        = length (filter (\<lambda>qc. qd_destination qc = d) (get_list (cf_qchannels cfg))) + 2 * (n + 1)"
      using n ab same by simp
    then show ?thesis by blast
  next
    case False
    then have "length (filter (\<lambda>qc. qd_destination qc = d) (get_list (cf_qchannels cfg')))
        = length (filter (\<lambda>qc. qd_destination qc = d) (get_list (cf_qchannels cfg))) + 2 * n"
      using n ab same by simp
    then show ?thesis by blast
  qed
qed

lemma fold_err_preserves:
  assumes "\<And>x s s'. f x s = Inr s' \<Longrightarrow> P s \<Longrightarrow> P s'"
  shows "fold_err f xs s = Inr s' \<Longrightarrow> P s \<Longrightarrow> P s'"
proof (induction xs arbitrary: s)
  case Nil
  then show ?case by simp
next
  case (Cons x xs)
  from Cons.prems(1) obtain s1 where a: "f x s = Inr s1" and b: "fold_err f xs s1 = Inr s'"
    by (auto split: sum.splits)
  from assms[OF a Cons.prems(2)] have "P s1" .
  from Cons.IH[OF b this] show ?case .
qed

lemma register_node_map:
  "tp_bsm_to_router_map (register_node nd obj topo) = tp_bsm_to_router_map topo"
  by (simp add: register_node_def)

lemma bsm_create_node_map:
  "bsm_create_node nt nd tmpl topo = Inr topo' \<Longrightarrow>
   tp_bsm_to_router_map topo' = tp_bsm_to_router_map topo"
  by (auto simp: bsm_create_node_def register_node_map Let_def
      split: option.splits NodeType.splits)

lemma add_nodes_bsm_map:
  assumes "add_nodes BsmNetworkImpl nt topo = Inr topo'"
  shows "tp_bsm_to_router_map topo' = tp_bsm_to_router_map topo"
proof (rule fold_err_preserves[where P = "\<lambda>t. tp_bsm_to_router_map t = tp_bsm_to_router_map topo"
        and f = "\<lambda>nd t. create_node BsmNetworkImpl nt nd (template_of (tp_templates t) nd) t"
        and xs = "impl_ordered_node_dicts BsmNetworkImpl (cf_nodes (tp_config topo))"
        and s = topo])
  show "fold_err (\<lambda>nd t. create_node BsmNetworkImpl nt nd (template_of (tp_templates t) nd) t)
     (impl_ordered_node_dicts BsmNetworkImpl (cf_nodes (tp_config topo))) topo = Inr topo'"
    using assms by (simp add: add_nodes_def)
  show "tp_bsm_to_router_map topo = tp_bsm_to_router_map topo" by simp
  fix x s s'
  assume "create_node BsmNetworkImpl nt x (template_of (tp_templates s) x) s = Inr s'"
    and "tp_bsm_to_router_map s = tp_bsm_to_router_map topo"
  then show "tp_bsm_to_router_map s' = tp_bsm_to_router_map topo"
    using bsm_create_node_map[of nt x "template_of (tp_templates s) x" s s']
    by (simp add: create_node_def)
qed

lemma then_do_Inl [simp]: "then_do (Inl e) f = Inl e"
  by (simp add: then_do_def)

lemma then_do_Inr [simp]: "then_do (Inr s) f = f s"
  by (simp add: then_do_def)

lemma isl_then_do: "isl r \<Longrightarrow> isl (then_do r f)"
  by (cases r) simp_all

lemma bsm_add_parameters_config:
  "add_parameters BsmNetworkImpl topo = Inr topo' \<Longrightarrow>
   tp_config topo' = tp_config topo \<and> tp_bsm_to_router_map topo' = tp_bsm_to_router_map topo"
  by (auto simp: add_parameters_def impl_add_parameters_def add_qlan_parameters_def Let_def
      split: if_splits)

subsection \<open>Precondition of the BSM wiring\<close>

text \<open>
  C9. The midpoint-to-endpoint map holds, for every name that is the destination of some
  quantum-channel declaration, the sources of those declarations in order, whatever the
  type of the destination. If in the given config some name is the destination of a
  number of quantum-channel declarations other than two, the pipeline of the BSM family
  does not complete: it ends in an error, and the wiring step, when it is reached with
  such a map, raises the unpack error.
\<close>

theorem bsm_wiring_needs_two_channels:
  assumes "d \<in> qd_destination ` set (get_list (cf_qchannels cfg))"
    and "length (filter (\<lambda>qc. qd_destination qc = d) (get_list (cf_qchannels cfg))) \<noteq> 2"
  shows "isl (run_pipeline BsmNetworkImpl node_types dj c cfg)
    \<and> isl (construct_topology BsmNetworkImpl node_types dj c cfg)
    \<and> (\<forall>topo. tp_bsm_to_router_map topo
               = fold map_bsm_routers_step (get_list (cf_qchannels cfg)) []
         \<longrightarrow> (\<exists>n t. add_bsm_node_to_router BsmNetworkImpl topo = Inl (UnpackError n, t)))
    \<and> (\<forall>qcs x. map_of (fold map_bsm_routers_step qcs []) x =
           (if filter (\<lambda>qc. qd_destination qc = x) qcs = [] then None
            else Some (map qd_source (filter (\<lambda>qc. qd_destination qc = x) qcs))))"
proof -
  let ?cnt = "\<lambda>cf. length (filter (\<lambda>qc. qd_destination qc = d) (get_list (cf_qchannels cf)))"
  have k1: "?cnt cfg \<ge> 1"
  proof -
    from assms(1) have "filter (\<lambda>qc. qd_destination qc = d) (get_list (cf_qchannels cfg)) \<noteq> []"
      by (auto simp: filter_empty_conv)
    then show ?thesis by (simp add: Suc_le_eq)
  qed
  have unpack: "\<exists>n t. add_bsm_node_to_router BsmNetworkImpl topo = Inl (UnpackError n, t)"
    if m: "tp_bsm_to_router_map topo = fold map_bsm_routers_step qcs []"
      and ne: "filter (\<lambda>qc. qd_destination qc = d) qcs \<noteq> []"
      and l2: "length (filter (\<lambda>qc. qd_destination qc = d) qcs) \<noteq> 2"
    for topo :: topology and qcs :: "qchannel_decl list"
  proof -
    have "map_of (tp_bsm_to_router_map topo) d
          = Some (map qd_source (filter (\<lambda>qc. qd_destination qc = d) qcs))"
      using ne by (simp add: m map_of_fold_map_bsm_routers)
    then have "(d, map qd_source (filter (\<lambda>qc. qd_destination qc = d) qcs))
               \<in> set (tp_bsm_to_router_map topo)"
      by (rule map_of_SomeD)
    then have "\<exists>e \<in> set (tp_bsm_to_router_map topo). length (snd e) \<noteq> 2"
      using l2 by force
    from fold_err_unpack[OF this] show ?thesis
      by (simp add: add_bsm_node_to_router_def)
  qed
  have third: "\<forall>topo. tp_bsm_to_router_map topo
               = fold map_bsm_routers_step (get_list (cf_qchannels cfg)) []
         \<longrightarrow> (\<exists>n t. add_bsm_node_to_router BsmNetworkImpl topo = Inl (UnpackError n, t))"
  proof (intro allI impI)
    fix topo :: topology
    assume m: "tp_bsm_to_router_map topo
               = fold map_bsm_routers_step (get_list (cf_qchannels cfg)) []"
    have ne0: "filter (\<lambda>qc. qd_destination qc = d) (get_list (cf_qchannels cfg)) \<noteq> []"
      using k1 by auto
    show "\<exists>n t. add_bsm_node_to_router BsmNetworkImpl topo = Inl (UnpackError n, t)"
      using unpack[of topo "get_list (cf_qchannels cfg)"] m ne0 assms(2) by blast
  qed
  let ?t0 = "get_templates (topology_setup cfg)"
  have run: "isl (run_pipeline BsmNetworkImpl node_types dj c cfg)"
  proof (cases "add_parameters BsmNetworkImpl ?t0")
    case (Inl e)
    then show ?thesis by (simp add: run_pipeline_def)
  next
    case (Inr t1)
    from bsm_add_parameters_config[OF Inr]
    have c1: "tp_config t1 = cfg" and m1: "tp_bsm_to_router_map t1 = []"
      by (simp_all add: get_templates_def topology_setup_def)
    show ?thesis
    proof (cases "add_qconnections BsmNetworkImpl c cfg")
      case (Inl e)
      then have "isl (topo_add_qconnections BsmNetworkImpl c t1)"
        by (cases e) (simp add: topo_add_qconnections_def c1)
      then show ?thesis
        using Inr by (simp add: run_pipeline_def isl_then_do)
    next
      case cfg': (Inr cfg')
      then have t2: "topo_add_qconnections BsmNetworkImpl c t1 = Inr (t1\<lparr>tp_config := cfg'\<rparr>)"
        by (simp add: topo_add_qconnections_def c1)
      from cfg' obtain n where n: "?cnt cfg' = ?cnt cfg + 2 * n"
        using add_qconnections_loop_count[of c "cf_qconnections cfg" cfg cfg' d]
        by (auto simp: add_qconnections_def)
      have ne': "filter (\<lambda>qc. qd_destination qc = d) (get_list (cf_qchannels cfg')) \<noteq> []"
        using n k1 by (metis add_is_0 length_0_conv not_one_le_zero)
      have l2': "?cnt cfg' \<noteq> 2" using n k1 assms(2) by presburger
      let ?t2 = "add_timeline (t1\<lparr>tp_config := cfg'\<rparr>)"
      show ?thesis
      proof (cases "cf_qchannels cfg'")
        case None
        then have "isl (map_bsm_routers BsmNetworkImpl ?t2)"
          by (simp add: map_bsm_routers_def bsm_map_bsm_routers_def add_timeline_def)
        then show ?thesis
          using Inr t2 by (simp add: run_pipeline_def isl_then_do)
      next
        case (Some qcs)
        let ?t3 = "?t2\<lparr>tp_bsm_to_router_map := fold map_bsm_routers_step qcs []\<rparr>"
        have t3: "map_bsm_routers BsmNetworkImpl ?t2 = Inr ?t3"
          using Some m1 by (simp add: map_bsm_routers_def bsm_map_bsm_routers_def add_timeline_def)
        have qcs: "get_list (cf_qchannels cfg') = qcs" using Some by (simp add: get_list_def)
        show ?thesis
        proof (cases "add_nodes BsmNetworkImpl node_types ?t3")
          case (Inl e)
          then show ?thesis
            using Inr t2 t3 by (simp add: run_pipeline_def)
        next
          case t4: (Inr t4)
          from add_nodes_bsm_map[OF t4]
          have "tp_bsm_to_router_map t4 = fold map_bsm_routers_step qcs []" by simp
          from unpack[OF this] ne' l2' qcs
          obtain nm t where "add_bsm_node_to_router BsmNetworkImpl t4 = Inl (UnpackError nm, t)"
            by auto
          then show ?thesis
            using Inr t2 t3 t4 by (simp add: run_pipeline_def)
        qed
      qed
    qed
  qed
  have con: "isl (construct_topology BsmNetworkImpl node_types dj c cfg)"
    using run by (cases "run_pipeline BsmNetworkImpl node_types dj c cfg")
      (auto simp: construct_topology_def)
  have fourth: "\<forall>qcs x. map_of (fold map_bsm_routers_step qcs []) x =
           (if filter (\<lambda>qc. qd_destination qc = x) qcs = [] then None
            else Some (map qd_source (filter (\<lambda>qc. qd_destination qc = x) qcs)))"
    by (simp add: map_of_fold_map_bsm_routers)
  show ?thesis using run con third fourth by blast
qed

theorem bsm_wiring_needs_two_channels_witness:
  "''r2'' \<in> qd_destination ` set (get_list (cf_qchannels cfgD))
   \<and> length (filter (\<lambda>qc. qd_destination qc = ''r2'') (get_list (cf_qchannels cfgD))) = 1
   \<and> isl (run_pipeline BsmNetworkImpl [QUANTUM_ROUTER \<mapsto> (\<lambda>_. StaticRouting)]
             (\<lambda>_ _ _. None) (2 / 10000) cfgD)"
proof -
  have a: "''r2'' \<in> qd_destination ` set (get_list (cf_qchannels cfgD))"
    by (simp add: cfgD_def get_list_def)
  have b: "length (filter (\<lambda>qc. qd_destination qc = ''r2'') (get_list (cf_qchannels cfgD))) = 1"
    by (simp add: cfgD_def get_list_def)
  then have b': "length (filter (\<lambda>qc. qd_destination qc = ''r2'') (get_list (cf_qchannels cfgD))) \<noteq> 2"
    by simp
  from bsm_wiring_needs_two_channels[OF a b', of "[QUANTUM_ROUTER \<mapsto> (\<lambda>_. StaticRouting)]"
      "\<lambda>_ _ _. None" "2 / 10000"]
  show ?thesis using a b by simp
qed










subsection \<open>Node types without a registered class\<close>





text \<open>Unfolding the pipeline on a concrete config.\<close>

lemmas pipeline_defs =
  run_pipeline_def then_do_def add_parameters_def Let_def impl_add_parameters_def
  get_templates_def topology_setup_def topo_add_qconnections_def add_qconnections_def
  map_bsm_routers_def add_timeline_def add_nodes_def impl_ordered_node_dicts_def
  ordered_node_dicts_def create_node_def qlan_create_node_def template_of_def
  add_bsm_node_to_router_def add_qchannels_def add_cchannels_def add_cconnections_def
  generate_forwarding_table_def add_qlan_parameters_def qlan_memarray_def mem_from_def
  memo_of_template_def get_default_def register_node_def new_node_def dict_append_def
  get_list_def mk_node_def type_consts

lemma run_legacy:
  "\<exists>t. run_pipeline QlanNetworkImpl Map.empty no_path (2 / 10000) cfgLegacy = Inr t
     \<and> tp_qlan t = Some \<lparr>n_local_memories = 2, n_clients = 1, meas_bases = ''xx'',
                         memo_orch = mem (8 / 10), memo_client = mem (8 / 10)\<rparr>
     \<and> node_memory t ''Orchestrator'' = Some (mem (9 / 10))
     \<and> node_memory t ''client1'' = Some (mem (9 / 10))"
  by (simp add: cfgLegacy_def pipeline_defs node_memory_def mem_def)

lemma run_templated:
  "\<exists>t. run_pipeline QlanNetworkImpl Map.empty no_path (2 / 10000) cfgTemplated = Inr t
     \<and> tp_qlan t = Some \<lparr>n_local_memories = 2, n_clients = 1, meas_bases = ''xx'',
                         memo_orch = mem (8 / 10), memo_client = mem (8 / 10)\<rparr>
     \<and> node_memory t ''Orchestrator'' = Some (mem (8 / 10))
     \<and> node_memory t ''client1'' = Some (mem (8 / 10))"
  by (simp add: cfgTemplated_def pipeline_defs node_memory_def mem_def)

subsection \<open>The two QLAN config dialects\<close>

text \<open>
  C1 (what the code does). A legacy config with the flat keys \<open>memo_fidelity_orch\<close> and
  \<open>memo_fidelity_client\<close> at 0.8 and a templated config whose MemoryArray templates give
  the fidelity 0.8 resolve to the same topology-level parameters, but the node objects
  differ: the factory reads the node's template only, so the nodes of the legacy config
  are built with the default fidelity 0.9 and those of the templated config with 0.8.
\<close>

theorem qlan_flat_keys_not_used:
  "\<exists>tl tt.
     run_pipeline QlanNetworkImpl Map.empty no_path (2 / 10000) cfgLegacy = Inr tl
     \<and> run_pipeline QlanNetworkImpl Map.empty no_path (2 / 10000) cfgTemplated = Inr tt
     \<and> tp_qlan tl = tp_qlan tt
     \<and> memo_orch (the (tp_qlan tl)) = mem (8 / 10) \<and> memo_client (the (tp_qlan tl)) = mem (8 / 10)
     \<and> node_memory tl ''Orchestrator'' = Some (mem (9 / 10))
     \<and> node_memory tt ''Orchestrator'' = Some (mem (8 / 10))
     \<and> node_memory tl ''client1'' = Some (mem (9 / 10))
     \<and> node_memory tt ''client1'' = Some (mem (8 / 10))
     \<and> node_memory tl ''Orchestrator'' \<noteq> node_memory tt ''Orchestrator''
     \<and> node_memory tl ''client1'' \<noteq> node_memory tt ''client1''"
proof -
  from run_legacy obtain tl where
    l: "run_pipeline QlanNetworkImpl Map.empty no_path (2 / 10000) cfgLegacy = Inr tl"
       "tp_qlan tl = Some \<lparr>n_local_memories = 2, n_clients = 1, meas_bases = ''xx'',
                         memo_orch = mem (8 / 10), memo_client = mem (8 / 10)\<rparr>"
       "node_memory tl ''Orchestrator'' = Some (mem (9 / 10))"
       "node_memory tl ''client1'' = Some (mem (9 / 10))"
    by blast
  from run_templated obtain tt where
    t: "run_pipeline QlanNetworkImpl Map.empty no_path (2 / 10000) cfgTemplated = Inr tt"
       "tp_qlan tt = Some \<lparr>n_local_memories = 2, n_clients = 1, meas_bases = ''xx'',
                         memo_orch = mem (8 / 10), memo_client = mem (8 / 10)\<rparr>"
       "node_memory tt ''Orchestrator'' = Some (mem (8 / 10))"
       "node_memory tt ''client1'' = Some (mem (8 / 10))"
    by blast
  have ne: "mem (9 / 10) \<noteq> mem (8 / 10)" by (simp add: mem_def)
  show ?thesis
    using l t ne by (intro exI[of _ tl] exI[of _ tt]) simp
qed





















lemma bsm_name_inj [simp]: "bsm_name_of c l = bsm_name_of c l' \<longleftrightarrow> l = l'"
  by (simp add: bsm_name_of_def)












subsection \<open>Link costs under the distributed discipline\<close>




lemma bsm_handle_qconnection_qchannels_eq:
  "bsm_handle_qconnection q dl cfg = Inr cfg' \<Longrightarrow>
   get_list (cf_qchannels cfg') = get_list (cf_qchannels cfg) @
     [auto_qchannel (qn_node1 q) (bsm_name_of (qn_node1 q) (qn_node2 q))
        (of_int \<lfloor>qn_distance q / 2\<rfloor>) (qn_attenuation q),
      auto_qchannel (qn_node2 q) (bsm_name_of (qn_node1 q) (qn_node2 q))
        (of_int \<lfloor>qn_distance q / 2\<rfloor>) (qn_attenuation q)]"
  by (auto simp: bsm_handle_qconnection_def Let_def append_channels_def get_list_def
      split: if_splits)

lemma add_qconnections_loop_qchannels:
  "add_qconnections_loop BsmNetworkImpl c qs cfg = Inr cfg' \<Longrightarrow>
   get_list (cf_qchannels cfg') = get_list (cf_qchannels cfg) @
     concat (map (\<lambda>q.
       [auto_qchannel (qn_node1 q) (bsm_name_of (qn_node1 q) (qn_node2 q))
          (of_int \<lfloor>qn_distance q / 2\<rfloor>) (qn_attenuation q),
        auto_qchannel (qn_node2 q) (bsm_name_of (qn_node1 q) (qn_node2 q))
          (of_int \<lfloor>qn_distance q / 2\<rfloor>) (qn_attenuation q)]) qs)"
proof (induction qs arbitrary: cfg)
  case Nil
  then show ?case by simp
next
  case (Cons q qs)
  from Cons.prems obtain cfg1 where
    h: "bsm_handle_qconnection q (halved_mean (cc_delay_list c cfg q)) cfg = Inr cfg1"
    and r: "add_qconnections_loop BsmNetworkImpl c qs cfg1 = Inr cfg'"
    by (auto simp: Let_def handle_qconnection_def split: if_splits sum.splits)
  show ?case
    using Cons.IH[OF r] bsm_handle_qconnection_qchannels_eq[OF h] by simp
qed

lemma star_qchannels_installed:
  assumes run: "add_qconnections_loop BsmNetworkImpl c (star_qconnections center a ls) cfg = Inr cfg'"
    and none: "get_list (cf_qchannels cfg) = []"
    and tc: "tp_config topo = cfg'" and tq: "tp_qchannels topo = []"
    and objs: "\<forall>r \<in> set (center # map fst ls). \<exists>obj. tp_tl topo r = Some obj \<and> no_name obj = r"
  shows "tp_qchannels (add_qchannels topo) = star_qchannels center a ls"
proof -
  let ?decl = "\<lambda>(l, d). [auto_qchannel center (bsm_name_of center l) (of_int \<lfloor>d / 2\<rfloor>) a,
                          auto_qchannel l (bsm_name_of center l) (of_int \<lfloor>d / 2\<rfloor>) a]"
  have decls: "get_list (cf_qchannels cfg') = concat (map ?decl ls)"
    using add_qconnections_loop_qchannels[OF run] none
    by (simp add: star_qconnections_def o_def case_prod_unfold)
  have src: "\<forall>qc \<in> set (concat (map ?decl ls)). qd_source qc \<in> set (center # map fst ls)"
    by (force simp: auto_qchannel_def)
  have res: "filter (\<lambda>qc. tp_tl topo (qd_source qc) \<noteq> None) (concat (map ?decl ls))
                  = concat (map ?decl ls)"
  proof (rule filter_True, rule ballI)
    fix qc assume "qc \<in> set (concat (map ?decl ls))"
    with src have "qd_source qc \<in> set (center # map fst ls)" by blast
    with objs show "tp_tl topo (qd_source qc) \<noteq> None" by blast
  qed
  have nm: "\<And>qc. qc \<in> set (concat (map ?decl ls)) \<Longrightarrow>
               no_name (the (tp_tl topo (qd_source qc))) = qd_source qc"
  proof -
    fix qc assume "qc \<in> set (concat (map ?decl ls))"
    with src have "qd_source qc \<in> set (center # map fst ls)" by blast
    with objs show "no_name (the (tp_tl topo (qd_source qc))) = qd_source qc" by force
  qed
  have "tp_qchannels (add_qchannels topo) =
        map (\<lambda>qc. \<lparr>qo_name = (case qd_name qc of
                                None \<Rightarrow> ''qc-'' @ qd_source qc @ ''-'' @ qd_destination qc
                              | Some n \<Rightarrow> n),
                    qo_attenuation = qd_attenuation qc, qo_distance = qd_distance qc,
                    qo_sender = no_name (the (tp_tl topo (qd_source qc))),
                    qo_receiver = qd_destination qc\<rparr>) (concat (map ?decl ls))"
    unfolding add_qchannels_def
      conjunct2[OF conjunct2[OF conjunct2[OF conjunct2[OF
        fold_add_qchannel[of "get_list (cf_qchannels (tp_config topo))" topo]]]]]
    by (simp only: tc decls res tq append_Nil)
  also have "\<dots> = map (\<lambda>qc. \<lparr>qo_name = (case qd_name qc of
                                None \<Rightarrow> ''qc-'' @ qd_source qc @ ''-'' @ qd_destination qc
                              | Some n \<Rightarrow> n),
                    qo_attenuation = qd_attenuation qc, qo_distance = qd_distance qc,
                    qo_sender = qd_source qc,
                    qo_receiver = qd_destination qc\<rparr>) (concat (map ?decl ls))"
    using nm by (intro map_cong) simp_all
  also have "\<dots> = star_qchannels center a ls"
    by (simp add: star_qchannels_def map_concat o_def case_prod_unfold auto_qchannel_def
        midpoint_qchannel_def)
  finally show ?thesis .
qed

end
